theory Spec2Isabelle
  imports Complex_Main "HOL-Library.Word" "HOL-Library.Sublist" "HOL-Library.Product_Lexorder"
begin

unbundle bit_operations_syntax

section \<open>Session identifier (frontend/lib/session.ts)\<close>

text \<open>
  The runtime context is modelled by what the library code reads and writes: whether
  \<open>window\<close> is defined, the contents of \<open>localStorage\<close> (a map from keys to string
  values; \<open>getItem\<close> of a missing key is \<open>null\<close>, here \<open>None\<close>), the two places
  \<open>getEnv\<close> reads (\<open>process.env\<close> on the server, the optional \<open>window.__ENV\<close> in the
  browser) and the module variable \<open>apiInstance\<close> of api.ts (\<open>null\<close> is \<open>None\<close>).
  Strings are sequences of code units below 256.
\<close>

record AxiosInstance =
  baseURL :: string
  headers :: "(string \<times> string) list"

record browser =
  window_defined :: bool
  localStorage :: "string \<rightharpoonup> string"
  process_env :: "string \<rightharpoonup> string"
  window_ENV :: "(string \<rightharpoonup> string) option"
  apiInstance :: "AxiosInstance option"

definition SESSION_KEY :: string where
  "SESSION_KEY = ''standard-rag-session-id''"

text \<open>
  One draw of \<open>(Math.random() * 16) | 0\<close>: \<open>Math.random()\<close> lies in \<open>[0, 1)\<close>, so the
  truncated product is one of 0..15, a 4-bit value. The source of randomness is the
  sequence of these draws; the \<open>i\<close>-th match of the pattern consumes the \<open>i\<close>-th draw.
\<close>

type_synonym random_source = "nat \<Rightarrow> 4 word"

text \<open>\<open>v.toString(16)\<close> for \<open>v\<close> in 0..15: one lower-case hexadecimal digit.\<close>

definition toString16 :: "4 word \<Rightarrow> string" where
  "toString16 v = [''0123456789abcdef'' ! unat v]"

text \<open>The callback of \<open>replace\<close>: \<open>c === 'x' ? r : (r & 0x3) | 0x8\<close>, printed in base 16.\<close>

definition replacer :: "char \<Rightarrow> 4 word \<Rightarrow> string" where
  "replacer c r = toString16 (if c = CHR ''x'' then r else (r AND 3) OR 8)"

text \<open>
  \<open>template.replace(/[xy]/g, callback)\<close>: every \<open>x\<close> or \<open>y\<close>, from left to right, is
  replaced by the callback's result; every other character is kept.
\<close>

fun replace_xy :: "random_source \<Rightarrow> nat \<Rightarrow> string \<Rightarrow> string" where
  "replace_xy rnd i [] = []"
| "replace_xy rnd i (c # cs) =
     (if c = CHR ''x'' \<or> c = CHR ''y''
      then replacer c (rnd i) @ replace_xy rnd (Suc i) cs
      else c # replace_xy rnd i cs)"

definition generateUUID :: "random_source \<Rightarrow> string" where
  "generateUUID rnd = replace_xy rnd 0 ''xxxxxxxx-xxxx-4xxx-yxxx-xxxxxxxxxxxx''"

text \<open>
  \<open>getSessionId\<close> returns the identifier and the browser context it leaves behind.
  \<open>!sessionId\<close> holds for \<open>null\<close> and for the empty string.
\<close>

definition getSessionId :: "random_source \<Rightarrow> browser \<Rightarrow> string \<times> browser" where
  "getSessionId rnd b =
     (if \<not> window_defined b then ('''', b)
      else (case localStorage b SESSION_KEY of
              Some sessionId \<Rightarrow>
                if sessionId \<noteq> [] then (sessionId, b)
                else (let fresh = generateUUID rnd
                      in (fresh, b\<lparr>localStorage := (localStorage b)(SESSION_KEY \<mapsto> fresh)\<rparr>))
            | None \<Rightarrow>
                (let fresh = generateUUID rnd
                 in (fresh, b\<lparr>localStorage := (localStorage b)(SESSION_KEY \<mapsto> fresh)\<rparr>))))"

definition clearSessionId :: "browser \<Rightarrow> browser" where
  "clearSessionId b =
     (if window_defined b then b\<lparr>localStorage := (localStorage b)(SESSION_KEY := None)\<rparr> else b)"

text \<open>The shape of a version-4 UUID, as the claim words it.\<close>

definition uuid_v4_shape :: "string \<Rightarrow> bool" where
  "uuid_v4_shape s \<longleftrightarrow>
     length s = 36 \<and>
     s ! 8 = CHR ''-'' \<and> s ! 13 = CHR ''-'' \<and> s ! 18 = CHR ''-'' \<and> s ! 23 = CHR ''-'' \<and>
     s ! 14 = CHR ''4'' \<and>
     s ! 19 \<in> {CHR ''8'', CHR ''9'', CHR ''a'', CHR ''b''}"

section \<open>Environment access (frontend/lib/env.ts)\<close>

text \<open>A thrown \<open>Error\<close>, with its message.\<close>

datatype js_error = Error string

definition ENV_SCHEMA :: "string list" where
  "ENV_SCHEMA = [''NEXT_PUBLIC_API_URL'']"

text \<open>
  \<open>getEnv\<close> throws for a key outside the schema and for a missing or empty value;
  \<open>window.__ENV?.[key]\<close> is \<open>undefined\<close> when \<open>window.__ENV\<close> is. The test
  \<open>key in ENV_SCHEMA\<close> is modelled for keys that are not names every object inherits
  (\<open>toString\<close>, \<open>constructor\<close>, ...): for those the test succeeds in the code and fails
  here. The parameter type \<open>EnvKey\<close> admits the one key of the schema only, and that is
  the key \<open>api.ts\<close> passes.
\<close>

definition getEnv :: "string \<Rightarrow> browser \<Rightarrow> js_error + string" where
  "getEnv key b =
     (if key \<notin> set ENV_SCHEMA then Inl (Error (''Invalid env key: '' @ key))
      else (let value = (if \<not> window_defined b then process_env b key
                         else (case window_ENV b of None \<Rightarrow> None | Some env \<Rightarrow> env key))
            in (case value of
                  None \<Rightarrow> Inl (Error (''Missing required env var: '' @ key))
                | Some v \<Rightarrow>
                    if v = [] then Inl (Error (''Missing required env var: '' @ key))
                    else Inr v)))"

section \<open>The client API module (frontend/lib/api.ts)\<close>

text \<open>
  The axios instance is created on the first request and kept in \<open>apiInstance\<close>;
  creating it reads \<open>NEXT_PUBLIC_API_URL\<close>, which may throw.
\<close>

definition getApiInstance :: "browser \<Rightarrow> (js_error + AxiosInstance) \<times> browser" where
  "getApiInstance b =
     (case apiInstance b of
        Some inst \<Rightarrow> (Inr inst, b)
      | None \<Rightarrow>
          (case getEnv ''NEXT_PUBLIC_API_URL'' b of
             Inl e \<Rightarrow> (Inl e, b)
           | Inr apiUrl \<Rightarrow>
               (let inst = \<lparr>baseURL = apiUrl @ ''/api/v1'',
                            headers = [(''Content-Type'', ''application/json'')]\<rparr>
                in (Inr inst, b\<lparr>apiInstance := Some inst\<rparr>))))"

text \<open>The \<open>File\<close> object handed to \<open>uploadDocument\<close>: its name, MIME type and bytes.\<close>

record File =
  file_name :: string
  file_type :: string
  file_bytes :: "8 word list"

text \<open>
  What a request carries: a multipart form (fields in the order they were appended), a
  JSON object (keys in the order of the object literal), or nothing.
\<close>

datatype form_value = FormFile File | FormString string

datatype json_value = JString string | JNumber real

datatype payload = NoData | FormData "(string \<times> form_value) list"
  | JsonObject "(string \<times> json_value) list"

datatype http_method = GET | POST | DELETE

record request =
  req_method :: http_method
  req_instance :: AxiosInstance
  req_url :: string
  req_data :: payload
  req_headers :: "(string \<times> string) list"

text \<open>
  Each API function is modelled up to the request it hands to axios (the response comes
  from the server and is returned as \<open>response.data\<close>, unchanged). The result is the
  request, or the error thrown before one was built, and the context left behind.
  The order of the calls to \<open>getSessionId\<close> and \<open>getApiInstance\<close> is the source's:
  \<open>uploadDocument\<close>, \<open>listDocuments\<close> and \<open>deleteDocument\<close> read the session first;
  \<open>searchDocuments\<close> and \<open>queryDocuments\<close> evaluate \<open>getApiInstance()\<close> before the
  object literal that calls \<open>getSessionId()\<close>.
\<close>

definition uploadDocument ::
  "random_source \<Rightarrow> File \<Rightarrow> browser \<Rightarrow> (js_error + request) \<times> browser" where
  "uploadDocument rnd file b =
     (let (sessionId, b1) = getSessionId rnd b;
          formData = [(''file'', FormFile file), (''session_id'', FormString sessionId)]
      in (case getApiInstance b1 of
            (Inl e, b2) \<Rightarrow> (Inl e, b2)
          | (Inr inst, b2) \<Rightarrow>
              (Inr \<lparr>req_method = POST, req_instance = inst, req_url = ''/rag/documents'',
                    req_data = FormData formData,
                    req_headers = [(''Content-Type'', ''multipart/form-data'')]\<rparr>, b2)))"

definition listDocuments ::
  "random_source \<Rightarrow> browser \<Rightarrow> (js_error + request) \<times> browser" where
  "listDocuments rnd b =
     (let (sessionId, b1) = getSessionId rnd b
      in (case getApiInstance b1 of
            (Inl e, b2) \<Rightarrow> (Inl e, b2)
          | (Inr inst, b2) \<Rightarrow>
              (Inr \<lparr>req_method = GET, req_instance = inst,
                    req_url = ''/rag/documents?session_id='' @ sessionId,
                    req_data = NoData, req_headers = []\<rparr>, b2)))"

definition deleteDocument ::
  "random_source \<Rightarrow> string \<Rightarrow> browser \<Rightarrow> (js_error + request) \<times> browser" where
  "deleteDocument rnd ident b =
     (let (sessionId, b1) = getSessionId rnd b
      in (case getApiInstance b1 of
            (Inl e, b2) \<Rightarrow> (Inl e, b2)
          | (Inr inst, b2) \<Rightarrow>
              (Inr \<lparr>req_method = DELETE, req_instance = inst,
                    req_url = ''/rag/documents/'' @ ident @ ''?session_id='' @ sessionId,
                    req_data = NoData, req_headers = []\<rparr>, b2)))"

text \<open>
  A parameter with a default (\<open>topK: number = 10\<close>) takes the default when the argument
  is left out: \<open>None\<close> here.
\<close>

definition searchDocuments ::
  "random_source \<Rightarrow> string \<Rightarrow> real option \<Rightarrow> real option \<Rightarrow> browser
     \<Rightarrow> (js_error + request) \<times> browser" where
  "searchDocuments rnd query topK_arg scoreThreshold_arg b =
     (let topK = (case topK_arg of None \<Rightarrow> 10 | Some k \<Rightarrow> k);
          scoreThreshold = (case scoreThreshold_arg of None \<Rightarrow> 0.5 | Some t \<Rightarrow> t)
      in (case getApiInstance b of
            (Inl e, b1) \<Rightarrow> (Inl e, b1)
          | (Inr inst, b1) \<Rightarrow>
              (let (sessionId, b2) = getSessionId rnd b1
               in (Inr \<lparr>req_method = POST, req_instance = inst, req_url = ''/rag/search'',
                        req_data = JsonObject [(''query'', JString query),
                                               (''session_id'', JString sessionId),
                                               (''top_k'', JNumber topK),
                                               (''score_threshold'', JNumber scoreThreshold)],
                        req_headers = []\<rparr>, b2))))"

definition queryDocuments ::
  "random_source \<Rightarrow> string \<Rightarrow> real option \<Rightarrow> browser
     \<Rightarrow> (js_error + request) \<times> browser" where
  "queryDocuments rnd question topK_arg b =
     (let topK = (case topK_arg of None \<Rightarrow> 5 | Some k \<Rightarrow> k)
      in (case getApiInstance b of
            (Inl e, b1) \<Rightarrow> (Inl e, b1)
          | (Inr inst, b1) \<Rightarrow>
              (let (sessionId, b2) = getSessionId rnd b1
               in (Inr \<lparr>req_method = POST, req_instance = inst, req_url = ''/rag/query'',
                        req_data = JsonObject [(''question'', JString question),
                                               (''session_id'', JString sessionId),
                                               (''top_k'', JNumber topK)],
                        req_headers = []\<rparr>, b2))))"

text \<open>
  The five boundary operations, collected so that a statement can range over all of them.
\<close>

datatype boundary_call =
    UploadDocument File
  | ListDocuments
  | DeleteDocument string
  | SearchDocuments string "real option" "real option"
  | QueryDocuments string "real option"

fun issue :: "random_source \<Rightarrow> boundary_call \<Rightarrow> browser \<Rightarrow> (js_error + request) \<times> browser" where
  "issue rnd (UploadDocument file) b = uploadDocument rnd file b"
| "issue rnd ListDocuments b = listDocuments rnd b"
| "issue rnd (DeleteDocument ident) b = deleteDocument rnd ident b"
| "issue rnd (SearchDocuments query topK scoreThreshold) b =
     searchDocuments rnd query topK scoreThreshold b"
| "issue rnd (QueryDocuments question topK) b = queryDocuments rnd question topK b"

text \<open>
  A request includes the session identifier \<open>sid\<close> when its form has the field
  \<open>session_id\<close> with that text, its JSON body has the key \<open>session_id\<close> with that
  string, or (a request without body) its URL ends with the query parameter
  \<open>?session_id=sid\<close>.
\<close>

definition includes_session_id :: "string \<Rightarrow> request \<Rightarrow> bool" where
  "includes_session_id sid r =
     (case req_data r of
        FormData form \<Rightarrow> map_of form ''session_id'' = Some (FormString sid)
      | JsonObject body \<Rightarrow> map_of body ''session_id'' = Some (JString sid)
      | NoData \<Rightarrow> suffix (''?session_id='' @ sid) (req_url r))"

definition json_field :: "request \<Rightarrow> string \<Rightarrow> json_value option" where
  "json_field r key = (case req_data r of JsonObject body \<Rightarrow> map_of body key | _ \<Rightarrow> None)"

section \<open>Boundary data (frontend/lib/api.ts)\<close>

datatype status = pending | processing | indexed | failed

record Document =
  id_doc :: string
  filename :: string
  content_type :: string
  file_size :: nat
  status :: status
  chunk_count :: nat
  error_message :: "string option"
  is_sample :: bool
  created_at :: string
  updated_at :: string

record SearchResult =
  chunk_id :: string
  document_id :: string
  filename_result :: string
  text_result :: string
  score :: real
  chunk_index :: int

record QueryResponse =
  question :: string
  answer :: string
  sources :: "SearchResult list"

text \<open>The answer of \<open>listDocuments\<close>.\<close>

record DocumentList =
  documents :: "Document list"
  total :: nat

section \<open>The chat page (app/page.tsx) and its messages (components/ChatArea.tsx)\<close>

datatype role = user | assistant

record Message =
  id_msg :: string
  role :: role
  content :: string
  sources_msg :: "SearchResult list option"
  isLoading :: "bool option"
  error :: "string option"

text \<open>\<open>documentsData?.documents || []\<close> and \<open>documents.some(d => d.status === 'indexed')\<close>.\<close>

definition documents_of :: "DocumentList option \<Rightarrow> Document list" where
  "documents_of documentsData = (case documentsData of None \<Rightarrow> [] | Some d \<Rightarrow> documents d)"

definition hasDocuments :: "Document list \<Rightarrow> bool" where
  "hasDocuments docs = list_ex (\<lambda>d. status d = indexed) docs"

text \<open>A reading of \<open>Date.now()\<close> is a number of milliseconds, printed in decimal.\<close>

fun show_nat :: "nat \<Rightarrow> string" where
  "show_nat n =
     (if n < 10 then [''0123456789'' ! n]
      else show_nat (n div 10) @ [''0123456789'' ! (n mod 10)])"

declare show_nat.simps [simp del]

definition userMessageId :: "nat \<Rightarrow> string" where
  "userMessageId now = ''user-'' @ show_nat now"

definition assistantMessageId :: "nat \<Rightarrow> string" where
  "assistantMessageId now = ''assistant-'' @ show_nat now"

definition NO_DOCUMENTS_TEXT :: string where
  "NO_DOCUMENTS_TEXT = ''Please upload and index some documents first before asking questions. You can upload documents using the panel on the right.''"

definition FALLBACK_ERROR_TEXT :: string where
  "FALLBACK_ERROR_TEXT = ''Failed to get an answer. Please try again.''"

definition userMessage :: "nat \<Rightarrow> string \<Rightarrow> Message" where
  "userMessage now text =
     \<lparr>id_msg = userMessageId now, role = user, content = text,
      sources_msg = None, isLoading = None, error = None\<rparr>"

definition noDocumentsMessage :: "nat \<Rightarrow> Message" where
  "noDocumentsMessage now =
     \<lparr>id_msg = assistantMessageId now, role = assistant, content = NO_DOCUMENTS_TEXT,
      sources_msg = None, isLoading = None, error = None\<rparr>"

definition loadingMessage :: "nat \<Rightarrow> Message" where
  "loadingMessage now =
     \<lparr>id_msg = assistantMessageId now, role = assistant, content = [],
      sources_msg = None, isLoading = Some True, error = None\<rparr>"

text \<open>
  The part of \<open>handleSendMessage\<close> that runs before the \<open>await\<close>. \<open>now1\<close> and \<open>now2\<close> are
  the two readings of \<open>Date.now()\<close>; each \<open>setMessages(prev => ...)\<close> is applied to the
  list the previous one produced. The result is the message list and the question handed
  to \<open>queryMutation.mutateAsync\<close>, that is to \<open>queryDocuments\<close>: \<open>None\<close> when the handler
  returns without a query.
\<close>

definition handleSendMessage_sync ::
  "bool \<Rightarrow> nat \<Rightarrow> nat \<Rightarrow> string \<Rightarrow> Message list \<Rightarrow> Message list \<times> string option" where
  "handleSendMessage_sync hasDocs now1 now2 text prev =
     (let msgs = prev @ [userMessage now1 text]
      in if \<not> hasDocs then (msgs @ [noDocumentsMessage now2], None)
         else (msgs @ [loadingMessage now2], Some text))"

text \<open>The update of the \<open>try\<close> branch, applied to the list as it is when the answer arrives.\<close>

definition on_resolved :: "string \<Rightarrow> QueryResponse \<Rightarrow> Message list \<Rightarrow> Message list" where
  "on_resolved assistantId data prev =
     map (\<lambda>msg. if id_msg msg = assistantId
                 then msg\<lparr>isLoading := Some False, content := answer data,
                          sources_msg := Some (sources data)\<rparr>
                 else msg) prev"

text \<open>
  The value \<open>queryDocuments\<close> rejects with is an object (an \<open>Error\<close> thrown before the
  request, or the error axios throws), with an optional \<open>response\<close>, whose optional
  \<open>data\<close> has an optional \<open>error\<close> text. \<open>error.response?.data?.error\<close> is \<open>undefined\<close>
  (\<open>None\<close>) as soon as one of them is missing.
\<close>

datatype response_data = ResponseData (error_field: "string option")

datatype http_response = HttpResponse (data_field: "response_data option")

datatype rejection = Rejection (response: "http_response option")

definition server_error :: "rejection \<Rightarrow> string option" where
  "server_error e =
     (case response e of
        None \<Rightarrow> None
      | Some r \<Rightarrow> (case data_field r of None \<Rightarrow> None | Some d \<Rightarrow> error_field d))"

text \<open>\<open>x || fallback\<close>: the fallback replaces \<open>undefined\<close> and the empty string.\<close>

definition error_text :: "rejection \<Rightarrow> string" where
  "error_text e =
     (case server_error e of
        None \<Rightarrow> FALLBACK_ERROR_TEXT
      | Some t \<Rightarrow> if t \<noteq> [] then t else FALLBACK_ERROR_TEXT)"

text \<open>The update of the \<open>catch\<close> branch.\<close>

definition on_rejected :: "string \<Rightarrow> rejection \<Rightarrow> Message list \<Rightarrow> Message list" where
  "on_rejected assistantId e prev =
     map (\<lambda>msg. if id_msg msg = assistantId
                 then msg\<lparr>isLoading := Some False, error := Some (error_text e)\<rparr>
                 else msg) prev"

text \<open>
  A whole run of \<open>handleSendMessage\<close> with no other update of the list in between: the
  final list and the questions sent through \<open>queryDocuments\<close>.
\<close>

datatype settled = Resolved QueryResponse | Rejected rejection

definition handleSendMessage ::
  "bool \<Rightarrow> nat \<Rightarrow> nat \<Rightarrow> string \<Rightarrow> settled \<Rightarrow> Message list \<Rightarrow> Message list \<times> string list" where
  "handleSendMessage hasDocs now1 now2 text outcome prev =
     (case handleSendMessage_sync hasDocs now1 now2 text prev of
        (msgs, None) \<Rightarrow> (msgs, [])
      | (msgs, Some q) \<Rightarrow>
          (case outcome of
             Resolved data \<Rightarrow> (on_resolved (assistantMessageId now2) data msgs, [q])
           | Rejected e \<Rightarrow> (on_rejected (assistantMessageId now2) e msgs, [q])))"

text \<open>
  The page starts with the empty list and takes one question at a time: the input is
  disabled while a query is pending, and the suggestions are offered only as long as the
  list is empty. So the list at any moment is what a sequence of whole runs of
  \<open>handleSendMessage\<close> has left, each run with its \<open>hasDocuments\<close>, its two readings of
  the clock, its question and its outcome.
\<close>

record send =
  send_hasDocs :: bool
  send_now1 :: nat
  send_now2 :: nat
  send_text :: string
  send_outcome :: settled

definition run_send :: "Message list \<Rightarrow> send \<Rightarrow> Message list" where
  "run_send msgs s =
     fst (handleSendMessage (send_hasDocs s) (send_now1 s) (send_now2 s) (send_text s)
            (send_outcome s) msgs)"

definition page_messages :: "send list \<Rightarrow> Message list" where
  "page_messages sends = foldl run_send [] sends"

section \<open>Rendering one message (components/ChatMessage.tsx)\<close>

text \<open>
  Which of its branches \<open>ChatMessage\<close> renders, with the text it shows. The sources are
  listed under an answer when \<open>sources && sources.length > 0\<close>.
\<close>

datatype rendering =
    UserBubble string
  | Thinking
  | ErrorText string
  | AnswerText string "SearchResult list"
  | NoResultsText

definition ChatMessage :: "Message \<Rightarrow> rendering" where
  "ChatMessage m =
     (if role m = user then UserBubble (content m)
      else if isLoading m = Some True then Thinking
      else (let shown_error = (case error m of None \<Rightarrow> [] | Some t \<Rightarrow> t)
            in if shown_error \<noteq> [] then ErrorText shown_error
               else if content m \<noteq> [] then
                 AnswerText (content m) (case sources_msg m of None \<Rightarrow> [] | Some s \<Rightarrow> s)
               else NoResultsText))"

section \<open>The question input (components/ChatInput.tsx)\<close>

text \<open>
  \<open>String.prototype.trim\<close> removes white space and line terminators from both ends;
  among the code units below 256 these are TAB, LF, VT, FF, CR, SPACE and NBSP.
\<close>

definition is_whitespace :: "char \<Rightarrow> bool" where
  "is_whitespace c \<longleftrightarrow>
     c \<in> {CHR 0x09, CHR 0x0A, CHR 0x0B, CHR 0x0C, CHR 0x0D, CHR 0x20, CHR 0xA0}"

definition trim :: "string \<Rightarrow> string" where
  "trim s = rev (dropWhile is_whitespace (rev (dropWhile is_whitespace s)))"

text \<open>
  \<open>handleSend\<close>, for the optional props \<open>disabled\<close> and \<open>isLoading\<close> (\<open>None\<close> when not
  passed) and the current \<open>value\<close> of the field: the arguments \<open>onSend\<close> was called with,
  and the value of the field afterwards.
\<close>

definition handleSend :: "bool option \<Rightarrow> bool option \<Rightarrow> string \<Rightarrow> string list \<times> string" where
  "handleSend disabled loading val =
     (if trim val \<noteq> [] \<and> disabled \<noteq> Some True \<and> loading \<noteq> Some True
      then ([trim val], [])
      else ([], val))"

record KeyboardEvent =
  key :: string
  shiftKey :: bool

definition handleKeyDown ::
  "bool option \<Rightarrow> bool option \<Rightarrow> KeyboardEvent \<Rightarrow> string \<Rightarrow> string list \<times> string" where
  "handleKeyDown disabled loading e val =
     (if key e = ''Enter'' \<and> \<not> shiftKey e then handleSend disabled loading val
      else ([], val))"

section \<open>The upload widget (components/UploadZone.tsx)\<close>

text \<open>The \<open>accept\<close> table handed to \<open>useDropzone\<close>: MIME types with their extensions.\<close>

definition UploadZone_accept :: "(string \<times> string list) list" where
  "UploadZone_accept =
     [(''text/plain'', [''.txt'']), (''text/markdown'', [''.md'']),
      (''application/pdf'', [''.pdf''])]"

text \<open>\<open>onDrop\<close>: the calls of \<open>onUpload\<close> it makes for the files the dropzone accepted.\<close>

definition onDrop :: "File list \<Rightarrow> File list list" where
  "onDrop acceptedFiles = (if length acceptedFiles > 0 then [acceptedFiles] else [])"

text \<open>
  Which of the dropped or picked files reach \<open>onDrop\<close> is decided by the dropzone
  library (\<open>useDropzone\<close> of react-dropzone, which matches with attr-accept), not by
  code of the widget. Its rule is written out here as the library has it, for the
  options the widget sets (\<open>accept\<close> and \<open>disabled\<close>; no size limit, no limit on the number
  of files, no validator):
  \<^item> the accept table is flattened to the list of its MIME types and extensions;
  \<^item> both sides are compared in lower case (\<open>toLowerCase\<close>; among the code units below
    256 the capitals are \<open>A\<close> to \<open>Z\<close> and \<open>0xC0\<close> to \<open>0xDE\<close> without \<open>0xD7\<close>);
  \<^item> an entry that starts with a dot matches a file whose name ends with it, an entry
    \<open>type/*\<close> matches on the part of the file's type before the slash, any other entry
    matches a file whose type equals it;
  \<^item> a file of the type \<open>application/x-moz-file\<close> is let through whatever the table;
  \<^item> a disabled dropzone takes no file.
\<close>

definition toLowerCase :: "string \<Rightarrow> string" where
  "toLowerCase s =
     map (\<lambda>c. let n = (of_char c :: nat)
               in if (65 \<le> n \<and> n \<le> 90) \<or> (192 \<le> n \<and> n \<le> 222 \<and> n \<noteq> 215)
                  then char_of (n + 32) else c) s"

definition acceptPropAsAcceptAttr :: "(string \<times> string list) list \<Rightarrow> string list" where
  "acceptPropAsAcceptAttr accept = concat (map (\<lambda>(mimeType, ext). mimeType # ext) accept)"

definition accepts :: "File \<Rightarrow> string list \<Rightarrow> bool" where
  "accepts file acceptedFiles =
     (acceptedFiles = [] \<or>
      list_ex (\<lambda>entry.
          let validType = toLowerCase (trim entry);
              mimeType = toLowerCase (file_type file)
          in if take 1 validType = ''.'' then suffix validType (toLowerCase (file_name file))
             else if suffix ''/*'' validType
               then takeWhile (\<lambda>c. c \<noteq> CHR ''/'') mimeType =
                    takeWhile (\<lambda>c. c \<noteq> CHR ''/'') validType
             else mimeType = validType)
        acceptedFiles)"

definition fileAccepted :: "File \<Rightarrow> string list \<Rightarrow> bool" where
  "fileAccepted file accept \<longleftrightarrow>
     file_type file = ''application/x-moz-file'' \<or> accepts file accept"

text \<open>
  A drop on the widget: the calls of \<open>onUpload\<close> that follow, for the optional prop
  \<open>isUploading\<close> and the files dropped.
\<close>

definition UploadZone_drop :: "bool option \<Rightarrow> File list \<Rightarrow> File list list" where
  "UploadZone_drop isUploading files =
     (if isUploading = Some True then []
      else onDrop (filter (\<lambda>f. fileAccepted f (acceptPropAsAcceptAttr UploadZone_accept)) files))"

section \<open>The pipeline behind the boundary\<close>

text \<open>
  The ingestion pipeline and the retrieval engine run on the server, which is not among
  the sources of the front end; the definitions of this section follow the written
  design (sections 3, 4.1, 4.3 and 7).
\<close>

datatype backend_error =
    ValidationError | NotFoundError | ParseError | EmbeddingError | IndexError
  | GenerationError

text \<open>
  Modelled from the spec: the Document Store, a table of Document rows, each owned by a
  session.
\<close>

record row =
  row_session_id :: string
  row_document :: Document

definition SUPPORTED_CONTENT_TYPES :: "string list" where
  "SUPPORTED_CONTENT_TYPES = [''pdf'', ''txt'', ''markdown'']"

text \<open>
  Modelled from the spec: \<open>ingest(file bytes, filename, content_type, session_id)\<close> of
  the Ingestion Pipeline (section 4.1), which is missing from the sources. It rejects an
  unsupported content type or a zero-length file before any record is created, and
  otherwise creates the row in \<open>pending\<close> and returns it. \<open>new_id\<close> and \<open>now\<close> are the
  identity and the time stamp the new row gets.
\<close>

definition ingest ::
  "string \<Rightarrow> string \<Rightarrow> 8 word list \<Rightarrow> string \<Rightarrow> string \<Rightarrow> string \<Rightarrow> row list
     \<Rightarrow> (backend_error + Document) \<times> row list" where
  "ingest new_id now bytes name ctype session store =
     (if ctype \<notin> set SUPPORTED_CONTENT_TYPES \<or> bytes = [] then (Inl ValidationError, store)
      else (let doc = \<lparr>id_doc = new_id, filename = name, content_type = ctype,
                        file_size = length bytes, status = pending, chunk_count = 0,
                        error_message = None, is_sample = False,
                        created_at = now, updated_at = now\<rparr>
            in (Inr doc, store @ [\<lparr>row_session_id = session, row_document = doc\<rparr>])))"

text \<open>
  Modelled from the spec: the state machine of one document (section 4.1), missing from
  the sources. The state is the Document row together with the Vector Index entries of
  that document (chunk index and text). A run of the pipeline body ends either in a
  failure at one of its stages or with the chunker's texts embedded and upserted; zero
  chunks count as the failure "no extractable text". A failure leaves no entry behind.
  A re-upload restarts at \<open>pending\<close> after deleting the prior chunks. An event that does
  not fit the current status changes nothing.
\<close>

datatype stage = Parse | Chunk | Embed | Upsert

datatype pipeline_event = Start | Complete "stage + string list" | Reupload

record doc_state =
  the_document :: Document
  index_entries :: "(nat \<times> string) list"

fun stage_message :: "stage \<Rightarrow> string" where
  "stage_message Parse = ''parsing failed''"
| "stage_message Chunk = ''chunking failed''"
| "stage_message Embed = ''embedding failed''"
| "stage_message Upsert = ''indexing failed''"

definition mark_failed :: "string \<Rightarrow> doc_state \<Rightarrow> doc_state" where
  "mark_failed msg s =
     \<lparr>the_document = (the_document s)\<lparr>status := failed, error_message := Some msg\<rparr>,
      index_entries = []\<rparr>"

fun pipeline_step :: "pipeline_event \<Rightarrow> doc_state \<Rightarrow> doc_state" where
  "pipeline_step Start s =
     (if status (the_document s) = pending
      then s\<lparr>the_document := (the_document s)\<lparr>status := processing\<rparr>\<rparr>
      else s)"
| "pipeline_step (Complete (Inl st)) s =
     (if status (the_document s) = processing then mark_failed (stage_message st) s else s)"
| "pipeline_step (Complete (Inr texts)) s =
     (if status (the_document s) = processing
      then (if texts = [] then mark_failed ''no extractable text'' s
            else \<lparr>the_document =
                     (the_document s)\<lparr>status := indexed, chunk_count := length texts\<rparr>,
                   index_entries = zip [0..<length texts] texts\<rparr>)
      else s)"
| "pipeline_step Reupload s =
     (if status (the_document s) = indexed \<or> status (the_document s) = failed
      then \<lparr>the_document =
              (the_document s)\<lparr>status := pending, chunk_count := 0, error_message := None\<rparr>,
            index_entries = []\<rparr>
      else s)"

definition lifecycle :: "Document \<Rightarrow> pipeline_event list \<Rightarrow> doc_state" where
  "lifecycle d events =
     foldl (\<lambda>s e. pipeline_step e s) \<lparr>the_document = d, index_entries = []\<rparr> events"

text \<open>The invariant of section 3, with the contiguity of the chunk indices.\<close>

definition document_invariant :: "doc_state \<Rightarrow> bool" where
  "document_invariant s \<longleftrightarrow>
     (0 < chunk_count (the_document s)) = (status (the_document s) = indexed) \<and>
     (error_message (the_document s) \<noteq> None) = (status (the_document s) = failed) \<and>
     (if status (the_document s) = indexed
      then map fst (index_entries s) = [0..<chunk_count (the_document s)]
      else index_entries s = [])"

text \<open>
  Modelled from the spec: the edge policy of the Retrieval Engine (section 4.3), missing
  from the sources: \<open>top_k <= 0\<close> and a \<open>score_threshold\<close> outside \<open>[0, 1]\<close> are
  validation errors.
\<close>

definition validate_search :: "real \<Rightarrow> real \<Rightarrow> backend_error + unit" where
  "validate_search top_k score_threshold =
     (if top_k \<le> 0 then Inl ValidationError
      else if score_threshold < 0 \<or> 1 < score_threshold then Inl ValidationError
      else Inr ())"

text \<open>
  Modelled from the spec: \<open>search(query, session_id, top_k, score_threshold)\<close> of the
  Retrieval Engine (section 4.3), missing from the sources. A hit is a chunk with its
  similarity to the query and the creation time of its document. The Vector Index,
  with the Embedding Client in front of it, is the function that gives the scored
  neighbours of a query in one partition. The engine queries the caller's partition and
  the shared sample partition, merges, drops the hits below the threshold, sorts by
  score descending, then creation time descending, then chunk index ascending, and
  keeps the first \<open>top_k\<close>.
\<close>

record hit =
  hit_result :: SearchResult
  hit_created_at :: int

type_synonym vector_index = "string \<Rightarrow> string \<Rightarrow> hit list"

definition SAMPLE_PARTITION :: string where
  "SAMPLE_PARTITION = ''sample''"

definition rank_key :: "hit \<Rightarrow> real \<times> int \<times> int" where
  "rank_key h = (- score (hit_result h), - hit_created_at h, chunk_index (hit_result h))"

definition ranked_hits :: "vector_index \<Rightarrow> string \<Rightarrow> string \<Rightarrow> nat \<Rightarrow> real \<Rightarrow> hit list" where
  "ranked_hits index query session top_k score_threshold =
     take top_k
       (sort_key rank_key
          (filter (\<lambda>h. \<not> score (hit_result h) < score_threshold)
             (index query session @ index query SAMPLE_PARTITION)))"

definition search ::
  "vector_index \<Rightarrow> string \<Rightarrow> string \<Rightarrow> int \<Rightarrow> real \<Rightarrow> backend_error + SearchResult list" where
  "search index query session top_k score_threshold =
     (case validate_search (of_int top_k) score_threshold of
        Inl e \<Rightarrow> Inl e
      | Inr _ \<Rightarrow> Inr (map hit_result (ranked_hits index query session (nat top_k) score_threshold)))"

text \<open>The order the claim words: one hit may stand before another.\<close>

definition ranks_before :: "hit \<Rightarrow> hit \<Rightarrow> bool" where
  "ranks_before a b \<longleftrightarrow>
     score (hit_result b) < score (hit_result a) \<or>
     (score (hit_result a) = score (hit_result b) \<and>
      (hit_created_at b < hit_created_at a \<or>
       (hit_created_at a = hit_created_at b \<and>
        chunk_index (hit_result a) \<le> chunk_index (hit_result b))))"

section \<open>Sample inputs\<close>

text \<open>
  A browser on its first visit: nothing stored yet, the API address configured, no axios
  instance created.
\<close>

definition browser0 :: browser where
  "browser0 =
     \<lparr>window_defined = True, localStorage = Map.empty, process_env = Map.empty,
      window_ENV = Some [''NEXT_PUBLIC_API_URL'' \<mapsto> ''http://localhost:8000''],
      apiInstance = None\<rparr>"

definition instance0 :: AxiosInstance where
  "instance0 =
     \<lparr>baseURL = ''http://localhost:8000/api/v1'',
      headers = [(''Content-Type'', ''application/json'')]\<rparr>"

definition session0 :: string where
  "session0 = ''00000000-0000-4000-8000-000000000000''"

text \<open>
  A first question, sent at reading 5 of the clock and answered; responses and
  rejections for a second one.
\<close>

definition source0 :: SearchResult where
  "source0 =
     \<lparr>chunk_id = ''c-0'', document_id = ''d-1'', filename_result = ''notes.txt'',
      text_result = ''RAG combines retrieval and generation.'', score = 0.9,
      chunk_index = 0\<rparr>"

definition response1 :: QueryResponse where
  "response1 = \<lparr>question = ''q1'', answer = ''a1'', sources = [source0]\<rparr>"

definition response2 :: QueryResponse where
  "response2 = \<lparr>question = ''q2'', answer = ''a2'', sources = []\<rparr>"

definition rejection0 :: rejection where
  "rejection0 = Rejection (Some (HttpResponse (Some (ResponseData (Some ''rate limited'')))))"

definition rejection_empty :: rejection where
  "rejection_empty = Rejection (Some (HttpResponse (Some (ResponseData (Some [])))))"

definition draws0 :: random_source where
  "draws0 = (\<lambda>_. 0)"

definition send1 :: send where
  "send1 =
     \<lparr>send_hasDocs = True, send_now1 = 5, send_now2 = 5, send_text = ''q1'',
      send_outcome = Resolved response1\<rparr>"

text \<open>A Markdown file as a browser may report it: no MIME type; here also without bytes.\<close>

definition draft_md :: File where
  "draft_md = \<lparr>file_name = ''draft.md'', file_type = [], file_bytes = []\<rparr>"

definition notes_txt :: File where
  "notes_txt = \<lparr>file_name = ''notes.txt'', file_type = ''text/plain'', file_bytes = [104, 105]\<rparr>"

definition setup_exe :: File where
  "setup_exe =
     \<lparr>file_name = ''setup.exe'', file_type = ''application/octet-stream'', file_bytes = [77, 90]\<rparr>"

definition doc_pending :: Document where
  "doc_pending =
     \<lparr>id_doc = ''d-2'', filename = ''draft.md'', content_type = ''markdown'',
      file_size = 120, status = pending, chunk_count = 0, error_message = None,
      is_sample = False, created_at = ''2025-01-01T00:00:00Z'',
      updated_at = ''2025-01-01T00:00:00Z''\<rparr>"

text \<open>
  An accepted upload, and a Vector Index with three chunks in partition \<open>s1\<close> and one
  in the sample partition.
\<close>

definition doc_new :: Document where
  "doc_new =
     \<lparr>id_doc = ''d-7'', filename = ''notes.txt'', content_type = ''txt'', file_size = 3,
      status = pending, chunk_count = 0, error_message = None, is_sample = False,
      created_at = ''2025-01-02T00:00:00Z'', updated_at = ''2025-01-02T00:00:00Z''\<rparr>"

definition hitA :: hit where
  "hitA = \<lparr>hit_result = \<lparr>chunk_id = ''c-a'', document_id = ''d-1'',
       filename_result = ''notes.txt'', text_result = ''alpha'', score = 0.6,
       chunk_index = 1\<rparr>, hit_created_at = 100\<rparr>"

definition hitB :: hit where
  "hitB = \<lparr>hit_result = \<lparr>chunk_id = ''c-b'', document_id = ''d-1'',
       filename_result = ''notes.txt'', text_result = ''beta'', score = 0.9,
       chunk_index = 0\<rparr>, hit_created_at = 100\<rparr>"

definition hitC :: hit where
  "hitC = \<lparr>hit_result = \<lparr>chunk_id = ''c-c'', document_id = ''d-s'',
       filename_result = ''sample.md'', text_result = ''gamma'', score = 0.6,
       chunk_index = 4\<rparr>, hit_created_at = 200\<rparr>"

definition hitD :: hit where
  "hitD = \<lparr>hit_result = \<lparr>chunk_id = ''c-d'', document_id = ''d-1'',
       filename_result = ''notes.txt'', text_result = ''delta'', score = 0.3,
       chunk_index = 2\<rparr>, hit_created_at = 100\<rparr>"

definition index0 :: vector_index where
  "index0 query part =
     (if part = ''s1'' then [hitA, hitB, hitD]
      else if part = SAMPLE_PARTITION then [hitC] else [])"


section \<open>Properties of the session identifier\<close>

lemma variant_nibble: "unat (((r :: 4 word) AND 3) OR 8) \<in> {8, 9, 10, 11}"
proof -
  define n where "n = unat (r AND 3)"
  have "r AND 3 \<le> 3" by (rule word_and_le1)
  then have "n \<le> unat (3 :: 4 word)" unfolding n_def by (simp add: word_le_nat_alt)
  then have n: "n = 0 \<or> n = 1 \<or> n = 2 \<or> n = 3" by auto
  have "r AND 3 = word_of_nat n" by (simp add: n_def)
  with n have "r AND 3 = 0 \<or> r AND 3 = 1 \<or> r AND 3 = 2 \<or> r AND 3 = 3" by auto
  then show ?thesis by auto
qed

lemma toString16_variant:
  "toString16 ((r AND 3) OR 8) \<in> {''8'', ''9'', ''a'', ''b''}"
  using variant_nibble [of r] by (auto simp: toString16_def)

lemma length_toString16: "length (toString16 v) = 1"
  by (simp add: toString16_def)

lemma generateUUID_unfold:
  "generateUUID rnd =
     toString16 (rnd 0) @ toString16 (rnd 1) @ toString16 (rnd 2) @ toString16 (rnd 3) @
     toString16 (rnd 4) @ toString16 (rnd 5) @ toString16 (rnd 6) @ toString16 (rnd 7) @ ''-'' @
     toString16 (rnd 8) @ toString16 (rnd 9) @ toString16 (rnd 10) @ toString16 (rnd 11) @ ''-4'' @
     toString16 (rnd 12) @ toString16 (rnd 13) @ toString16 (rnd 14) @ ''-'' @
     toString16 ((rnd 15 AND 3) OR 8) @
     toString16 (rnd 16) @ toString16 (rnd 17) @ toString16 (rnd 18) @ ''-'' @
     toString16 (rnd 19) @ toString16 (rnd 20) @ toString16 (rnd 21) @ toString16 (rnd 22) @
     toString16 (rnd 23) @ toString16 (rnd 24) @ toString16 (rnd 25) @ toString16 (rnd 26) @
     toString16 (rnd 27) @ toString16 (rnd 28) @ toString16 (rnd 29) @ toString16 (rnd 30)"
  by (simp add: generateUUID_def replacer_def eval_nat_numeral)

lemma generateUUID_shape: "uuid_v4_shape (generateUUID rnd)"
proof -
  obtain v where v: "toString16 ((rnd 15 AND 3) OR 8) = [v]"
    and vs: "v \<in> {CHR ''8'', CHR ''9'', CHR ''a'', CHR ''b''}"
    using toString16_variant [of "rnd 15"] by auto
  have h: "\<And>w. \<exists>c. toString16 w = [c]" by (simp add: toString16_def)
  show ?thesis
    unfolding generateUUID_unfold uuid_v4_shape_def v
    using vs by (simp add: toString16_def)
qed

lemma generateUUID_nonempty: "generateUUID rnd \<noteq> []"
  using generateUUID_shape [of rnd] by (auto simp: uuid_v4_shape_def)

lemma generateUUID_zero: "generateUUID (\<lambda>_. 0) = session0"
  by (simp add: generateUUID_def replacer_def toString16_def session0_def)

lemma getSessionId_browser0:
  "getSessionId (\<lambda>_. 0) browser0 =
     (session0, browser0\<lparr>localStorage := [SESSION_KEY \<mapsto> session0]\<rparr>)"
  by (simp add: browser0_def getSessionId_def generateUUID_zero Let_def)

lemma getApiInstance_first_visit:
  "getApiInstance (browser0\<lparr>localStorage := [SESSION_KEY \<mapsto> session0]\<rparr>) =
     (Inr instance0,
      browser0\<lparr>localStorage := [SESSION_KEY \<mapsto> session0], apiInstance := Some instance0\<rparr>)"
  by (simp add: getApiInstance_def getEnv_def ENV_SCHEMA_def browser0_def instance0_def Let_def)

lemma getApiInstance_browser0:
  "getApiInstance browser0 = (Inr instance0, browser0\<lparr>apiInstance := Some instance0\<rparr>)"
  by (simp add: getApiInstance_def getEnv_def ENV_SCHEMA_def browser0_def instance0_def Let_def)

lemma getSessionId_with_instance:
  "getSessionId (\<lambda>_. 0) (browser0\<lparr>apiInstance := Some instance0\<rparr>) =
     (session0,
      browser0\<lparr>apiInstance := Some instance0, localStorage := [SESSION_KEY \<mapsto> session0]\<rparr>)"
  by (simp add: browser0_def getSessionId_def generateUUID_zero Let_def)

text \<open>
  Claim C7. In a browser (\<open>window\<close> defined), a call of \<open>getSessionId\<close> that finds nothing
  stored (or the empty string) generates a string of the UUID v4 shape: 36 characters,
  hyphens at positions 8, 13, 18 and 23, the version digit 4 and a variant digit among
  8, 9, a, b. Whatever the call returns is stored under the session key afterwards, and
  every later call, with any random draws, returns the same string and changes nothing.
  Without \<open>window\<close> the result is the empty string and nothing is touched.
\<close>

theorem getSessionId_idempotent:
  "(window_defined b \<longrightarrow>
      (case getSessionId rnd b of (s, b') \<Rightarrow>
         ((localStorage b SESSION_KEY = None \<or> localStorage b SESSION_KEY = Some [])
            \<longrightarrow> s = generateUUID rnd \<and> uuid_v4_shape s) \<and>
         localStorage b' SESSION_KEY = Some s \<and>
         (\<forall>rnd'. getSessionId rnd' b' = (s, b')))) \<and>
   (\<not> window_defined b \<longrightarrow> getSessionId rnd b = ([], b))"
  using generateUUID_shape [of rnd] generateUUID_nonempty [of rnd]
  by (auto simp: getSessionId_def Let_def split: option.splits)

theorem getSessionId_idempotent_witness:
  "window_defined browser0 \<and> localStorage browser0 SESSION_KEY = None \<and>
   fst (getSessionId (\<lambda>_. 0) browser0) = ''00000000-0000-4000-8000-000000000000'' \<and>
   uuid_v4_shape ''00000000-0000-4000-8000-000000000000'' \<and>
   localStorage (snd (getSessionId (\<lambda>_. 0) browser0)) SESSION_KEY
     = Some ''00000000-0000-4000-8000-000000000000'' \<and>
   getSessionId (\<lambda>_. 7) (snd (getSessionId (\<lambda>_. 0) browser0))
     = getSessionId (\<lambda>_. 0) browser0 \<and>
   \<not> window_defined (browser0\<lparr>window_defined := False\<rparr>) \<and>
   getSessionId (\<lambda>_. 0) (browser0\<lparr>window_defined := False\<rparr>)
     = ([], browser0\<lparr>window_defined := False\<rparr>)"
  using getSessionId_idempotent [of browser0 "\<lambda>_. 0"]
    getSessionId_idempotent [of "browser0\<lparr>window_defined := False\<rparr>" "\<lambda>_. 0"]
  by (simp add: browser0_def getSessionId_def generateUUID_def replacer_def toString16_def
      uuid_v4_shape_def SESSION_KEY_def Let_def)

section \<open>Properties of the client API module\<close>

lemma getApiInstance_keeps_session:
  "getApiInstance b = (r, b1) \<Longrightarrow>
     window_defined b1 = window_defined b \<and> localStorage b1 = localStorage b"
  by (auto simp: getApiInstance_def Let_def split: option.splits sum.splits)

lemma getSessionId_depends:
  "window_defined b1 = window_defined b \<Longrightarrow> localStorage b1 = localStorage b \<Longrightarrow>
     fst (getSessionId rnd b1) = fst (getSessionId rnd b)"
  by (auto simp: getSessionId_def Let_def split: option.splits)

lemma suffix_session_query: "suffix (''?session_id='' @ sid) (p @ ''?session_id='' @ sid)"
  by (rule suffixI) simp

lemma uploadDocument_includes:
  assumes "fst (uploadDocument rnd file b) = Inr req"
  shows "includes_session_id (fst (getSessionId rnd b)) req"
proof -
  obtain sid b1 where s: "getSessionId rnd b = (sid, b1)" by (cases "getSessionId rnd b")
  obtain r b2 where g: "getApiInstance b1 = (r, b2)" by (cases "getApiInstance b1")
  from assms s g have "req_data req = FormData [(''file'', FormFile file), (''session_id'', FormString sid)]"
    by (cases r) (auto simp: uploadDocument_def)
  then show ?thesis by (simp add: includes_session_id_def s)
qed

lemma listDocuments_includes:
  assumes "fst (listDocuments rnd b) = Inr req"
  shows "includes_session_id (fst (getSessionId rnd b)) req"
proof -
  obtain sid b1 where s: "getSessionId rnd b = (sid, b1)" by (cases "getSessionId rnd b")
  obtain r b2 where g: "getApiInstance b1 = (r, b2)" by (cases "getApiInstance b1")
  from assms s g have "req_data req = NoData \<and> req_url req = ''/rag/documents'' @ ''?session_id='' @ sid"
    by (cases r) (auto simp: listDocuments_def)
  then show ?thesis
    unfolding includes_session_id_def s using suffix_session_query [of sid "''/rag/documents''"]
    by (simp del: append.simps)
qed

lemma deleteDocument_includes:
  assumes "fst (deleteDocument rnd ident b) = Inr req"
  shows "includes_session_id (fst (getSessionId rnd b)) req"
proof -
  obtain sid b1 where s: "getSessionId rnd b = (sid, b1)" by (cases "getSessionId rnd b")
  obtain r b2 where g: "getApiInstance b1 = (r, b2)" by (cases "getApiInstance b1")
  from assms s g have "req_data req = NoData \<and>
      req_url req = (''/rag/documents/'' @ ident) @ ''?session_id='' @ sid"
    by (cases r) (auto simp: deleteDocument_def)
  then show ?thesis
    unfolding includes_session_id_def s
    using suffix_session_query [of sid "''/rag/documents/'' @ ident"]
    by (simp del: append.simps append_assoc)
qed

lemma searchDocuments_includes:
  assumes "fst (searchDocuments rnd query topK scoreThreshold b) = Inr req"
  shows "includes_session_id (fst (getSessionId rnd b)) req"
proof -
  obtain r b1 where g: "getApiInstance b = (r, b1)" by (cases "getApiInstance b")
  obtain sid b2 where s: "getSessionId rnd b1 = (sid, b2)" by (cases "getSessionId rnd b1")
  have same: "fst (getSessionId rnd b1) = fst (getSessionId rnd b)"
    using getApiInstance_keeps_session [OF g] by (intro getSessionId_depends) simp_all
  from assms s g obtain k t where
    "req_data req = JsonObject [(''query'', JString query), (''session_id'', JString sid),
       (''top_k'', JNumber k), (''score_threshold'', JNumber t)]"
    by (cases r) (simp_all add: searchDocuments_def Let_def, fastforce)
  then show ?thesis using same s by (simp add: includes_session_id_def)
qed

lemma queryDocuments_includes:
  assumes "fst (queryDocuments rnd q topK b) = Inr req"
  shows "includes_session_id (fst (getSessionId rnd b)) req"
proof -
  obtain r b1 where g: "getApiInstance b = (r, b1)" by (cases "getApiInstance b")
  obtain sid b2 where s: "getSessionId rnd b1 = (sid, b2)" by (cases "getSessionId rnd b1")
  have same: "fst (getSessionId rnd b1) = fst (getSessionId rnd b)"
    using getApiInstance_keeps_session [OF g] by (intro getSessionId_depends) simp_all
  from assms s g obtain k where
    "req_data req = JsonObject [(''question'', JString q), (''session_id'', JString sid),
       (''top_k'', JNumber k)]"
    by (cases r) (simp_all add: queryDocuments_def Let_def, fastforce)
  then show ?thesis using same s by (simp add: includes_session_id_def)
qed

lemma listDocuments_browser0:
  "listDocuments (\<lambda>_. 0) browser0 =
     (Inr \<lparr>req_method = GET, req_instance = instance0,
           req_url = ''/rag/documents?session_id='' @ session0,
           req_data = NoData, req_headers = []\<rparr>,
      browser0\<lparr>localStorage := [SESSION_KEY \<mapsto> session0], apiInstance := Some instance0\<rparr>)"
  by (simp add: listDocuments_def getSessionId_browser0 getApiInstance_first_visit)

lemma searchDocuments_browser0:
  "fst (searchDocuments (\<lambda>_. 0) ''what is rag'' None None browser0) =
     Inr \<lparr>req_method = POST, req_instance = instance0, req_url = ''/rag/search'',
          req_data = JsonObject [(''query'', JString ''what is rag''),
                                 (''session_id'', JString session0),
                                 (''top_k'', JNumber 10), (''score_threshold'', JNumber 0.5)],
          req_headers = []\<rparr>"
  by (simp add: searchDocuments_def getApiInstance_browser0 getSessionId_with_instance)

lemma queryDocuments_browser0:
  "fst (queryDocuments (\<lambda>_. 0) ''what is rag'' None browser0) =
     Inr \<lparr>req_method = POST, req_instance = instance0, req_url = ''/rag/query'',
          req_data = JsonObject [(''question'', JString ''what is rag''),
                                 (''session_id'', JString session0),
                                 (''top_k'', JNumber 5)],
          req_headers = []\<rparr>"
  by (simp add: queryDocuments_def getApiInstance_browser0 getSessionId_with_instance)

text \<open>
  Claim C1. Whichever of the five boundary operations is issued, in whatever context
  and with whatever arguments, the request it builds includes the session identifier
  that \<open>getSessionId\<close> gives in that context: as the form field \<open>session_id\<close>
  (\<open>uploadDocument\<close>), as the query parameter at the end of the URL (\<open>listDocuments\<close>,
  \<open>deleteDocument\<close>) or as the key \<open>session_id\<close> of the JSON body (\<open>searchDocuments\<close>,
  \<open>queryDocuments\<close>). An operation that throws before it has a request builds none.
\<close>

theorem boundary_calls_include_session_id:
  "fst (issue rnd call b) = Inr req \<Longrightarrow>
     includes_session_id (fst (getSessionId rnd b)) req"
  by (cases call)
    (simp_all add: uploadDocument_includes listDocuments_includes deleteDocument_includes
      searchDocuments_includes queryDocuments_includes)

theorem boundary_calls_include_session_id_witness:
  "fst (issue (\<lambda>_. 0) ListDocuments browser0) =
     Inr \<lparr>req_method = GET, req_instance = instance0,
          req_url = ''/rag/documents?session_id='' @ session0,
          req_data = NoData, req_headers = []\<rparr> \<and>
   fst (getSessionId (\<lambda>_. 0) browser0) = session0 \<and>
   includes_session_id session0
     \<lparr>req_method = GET, req_instance = instance0,
      req_url = ''/rag/documents?session_id='' @ session0,
      req_data = NoData, req_headers = []\<rparr>"
  using boundary_calls_include_session_id [of "\<lambda>_. 0" ListDocuments browser0]
  by (simp add: listDocuments_browser0 getSessionId_browser0)

lemma searchDocuments_defaults:
  "fst (searchDocuments rnd query None None b) = Inr req \<Longrightarrow>
     json_field req ''top_k'' = Some (JNumber 10) \<and>
     json_field req ''score_threshold'' = Some (JNumber 0.5)"
  by (auto simp: searchDocuments_def json_field_def Let_def split: prod.splits sum.splits)

lemma queryDocuments_defaults:
  "fst (queryDocuments rnd q None b) = Inr req \<Longrightarrow>
     json_field req ''top_k'' = Some (JNumber 5) \<and>
     json_field req ''score_threshold'' = None"
  by (auto simp: queryDocuments_def json_field_def Let_def split: prod.splits sum.splits)

text \<open>
  Claim C8, as amended. A call of \<open>searchDocuments\<close> with the default parameters builds
  a request with \<open>top_k\<close> 10 and \<open>score_threshold\<close> 0.5, which the edge policy accepts.
  A call of \<open>queryDocuments\<close> with the default parameter builds a request with \<open>top_k\<close>
  5 and no \<open>score_threshold\<close> at all; with this \<open>top_k\<close> the edge policy accepts exactly
  the thresholds in \<open>[0, 1]\<close>, so whether it accepts the call rests on the threshold the
  server fixes, not on the request.
\<close>

theorem default_requests_and_edge_policy:
  "(fst (searchDocuments rnd query None None b) = Inr req \<longrightarrow>
      json_field req ''top_k'' = Some (JNumber 10) \<and>
      json_field req ''score_threshold'' = Some (JNumber 0.5) \<and>
      validate_search 10 0.5 = Inr ()) \<and>
   (fst (queryDocuments rnd q None b) = Inr req' \<longrightarrow>
      json_field req' ''top_k'' = Some (JNumber 5) \<and>
      json_field req' ''score_threshold'' = None \<and>
      (\<forall>t. (validate_search 5 t = Inr ()) = (0 \<le> t \<and> t \<le> 1)))"
  using searchDocuments_defaults [of rnd query b req] queryDocuments_defaults [of rnd q b req']
  by (auto simp: validate_search_def)

theorem default_requests_and_edge_policy_witness:
  "fst (searchDocuments (\<lambda>_. 0) ''what is rag'' None None browser0) =
     Inr \<lparr>req_method = POST, req_instance = instance0, req_url = ''/rag/search'',
          req_data = JsonObject [(''query'', JString ''what is rag''),
                                 (''session_id'', JString session0),
                                 (''top_k'', JNumber 10), (''score_threshold'', JNumber 0.5)],
          req_headers = []\<rparr> \<and>
   validate_search 10 0.5 = Inr () \<and>
   fst (queryDocuments (\<lambda>_. 0) ''what is rag'' None browser0) =
     Inr \<lparr>req_method = POST, req_instance = instance0, req_url = ''/rag/query'',
          req_data = JsonObject [(''question'', JString ''what is rag''),
                                 (''session_id'', JString session0),
                                 (''top_k'', JNumber 5)],
          req_headers = []\<rparr> \<and>
   validate_search 5 (1 / 2) = Inr () \<and> validate_search 5 2 = Inl ValidationError"
  using default_requests_and_edge_policy
    [of "\<lambda>_. 0" "''what is rag''" browser0 _ "''what is rag''" _]
    searchDocuments_browser0 queryDocuments_browser0
  by (simp add: validate_search_def)

text \<open>
  The claim as first stated, that the request of a default call carries
  \<open>score_threshold\<close> 0.5, fails for \<open>queryDocuments\<close>: its request has no such key.
\<close>

lemma queryDocuments_draws0:
  "fst (queryDocuments draws0 ''what is rag'' None browser0) =
     Inr \<lparr>req_method = POST, req_instance = instance0, req_url = ''/rag/query'',
          req_data = JsonObject [(''question'', JString ''what is rag''),
                                 (''session_id'', JString session0),
                                 (''top_k'', JNumber 5)],
          req_headers = []\<rparr>"
  unfolding draws0_def by (rule queryDocuments_browser0)

theorem default_query_request_has_no_threshold:
  "fst (queryDocuments draws0 ''what is rag'' None browser0) =
     Inr \<lparr>req_method = POST, req_instance = instance0, req_url = ''/rag/query'',
          req_data = JsonObject [(''question'', JString ''what is rag''),
                                 (''session_id'', JString session0),
                                 (''top_k'', JNumber 5)],
          req_headers = []\<rparr> \<and>
   json_field
     \<lparr>req_method = POST, req_instance = instance0, req_url = ''/rag/query'',
      req_data = JsonObject [(''question'', JString ''what is rag''),
                             (''session_id'', JString session0),
                             (''top_k'', JNumber 5)],
      req_headers = []\<rparr> ''score_threshold'' = None \<and>
   json_field
     \<lparr>req_method = POST, req_instance = instance0, req_url = ''/rag/query'',
      req_data = JsonObject [(''question'', JString ''what is rag''),
                             (''session_id'', JString session0),
                             (''top_k'', JNumber 5)],
      req_headers = []\<rparr> ''score_threshold'' \<noteq> Some (JNumber (1 / 2))"
  by (simp add: queryDocuments_draws0 json_field_def)


section \<open>Properties of the chat page\<close>

lemma hasDocuments_iff: "hasDocuments docs \<longleftrightarrow> (\<exists>d\<in>set docs. status d = indexed)"
  by (simp add: hasDocuments_def list_ex_iff)

lemma user_id_not_assistant_id: "userMessageId now1 \<noteq> assistantMessageId now2"
  by (simp add: userMessageId_def assistantMessageId_def)

lemma show_nat_digit: "n < 10 \<Longrightarrow> show_nat n = [''0123456789'' ! n]"
  by (simp add: show_nat.simps)

text \<open>
  Claim C9. If no listed document has status \<open>indexed\<close>, \<open>handleSendMessage\<close> hands no
  question to \<open>queryDocuments\<close>: it appends exactly two messages to the list, the user's
  message and the fixed assistant message that asks to upload and index documents
  first, and returns; whatever the server would have answered plays no part.
\<close>

theorem no_indexed_document_no_query:
  "\<forall>d\<in>set docs. status d \<noteq> indexed \<Longrightarrow>
     handleSendMessage_sync (hasDocuments docs) now1 now2 text prev =
       (prev @ [userMessage now1 text, noDocumentsMessage now2], None) \<and>
     handleSendMessage (hasDocuments docs) now1 now2 text outcome prev =
       (prev @ [userMessage now1 text, noDocumentsMessage now2], []) \<and>
     role (noDocumentsMessage now2) = assistant \<and>
     content (noDocumentsMessage now2) = NO_DOCUMENTS_TEXT \<and>
     role (userMessage now1 text) = user \<and> content (userMessage now1 text) = text"
  by (simp add: hasDocuments_iff handleSendMessage_def handleSendMessage_sync_def
      userMessage_def noDocumentsMessage_def)

theorem no_indexed_document_no_query_witness:
  "status doc_pending \<noteq> indexed \<and>
   handleSendMessage (hasDocuments [doc_pending]) 7 8 ''q1'' (Resolved response1) [] =
     ([userMessage 7 ''q1'', noDocumentsMessage 8], [])"
  using no_indexed_document_no_query [of "[doc_pending]" 7 8 "''q1''" "[]" "Resolved response1"]
  by (simp add: doc_pending_def)

lemma on_resolved_fresh:
  "\<forall>m\<in>set prev. id_msg m \<noteq> aid \<Longrightarrow> on_resolved aid data prev = prev"
  by (simp add: on_resolved_def map_idI)

lemma on_resolved_append:
  "on_resolved aid data (xs @ ys) = on_resolved aid data xs @ on_resolved aid data ys"
  by (simp add: on_resolved_def)

lemma on_rejected_fresh:
  "\<forall>m\<in>set prev. id_msg m \<noteq> aid \<Longrightarrow> on_rejected aid e prev = prev"
  by (simp add: on_rejected_def map_idI)

lemma on_rejected_append:
  "on_rejected aid e (xs @ ys) = on_rejected aid e xs @ on_rejected aid e ys"
  by (simp add: on_rejected_def)

lemma error_text_nonempty: "error_text e \<noteq> []"
  by (simp add: error_text_def FALLBACK_ERROR_TEXT_def split: option.splits)

lemma error_text_cases:
  "(\<forall>t. server_error e = Some t \<and> t \<noteq> [] \<longrightarrow> error_text e = t) \<and>
   (server_error e = None \<or> server_error e = Some [] \<longrightarrow> error_text e = FALLBACK_ERROR_TEXT)"
  by (auto simp: error_text_def)

lemma show_nat_nonempty: "show_nat n \<noteq> []"
  by (subst show_nat.simps) simp

lemma digit_inj:
  assumes "a < 10" "b < 10" "''0123456789'' ! a = ''0123456789'' ! b"
  shows "a = b"
proof -
  have "distinct ''0123456789''" by simp
  moreover have "a < length ''0123456789''" "b < length ''0123456789''"
    using assms by simp_all
  ultimately show ?thesis using assms(3) by (simp only: nth_eq_iff_index_eq)
qed

lemma show_nat_inj: "show_nat m = show_nat n \<Longrightarrow> m = n"
proof (induction m arbitrary: n rule: show_nat.induct)
  case (1 m)
  show ?case
  proof (cases "m < 10")
    case True
    then have sm: "show_nat m = [''0123456789'' ! m]" by (subst show_nat.simps) simp
    show ?thesis
    proof (cases "n < 10")
      case True
      then have "show_nat n = [''0123456789'' ! n]" by (subst show_nat.simps) simp
      with sm "1.prems" have "''0123456789'' ! m = ''0123456789'' ! n" by simp
      with \<open>m < 10\<close> True show ?thesis by (rule digit_inj)
    next
      case False
      then have "show_nat n = show_nat (n div 10) @ [''0123456789'' ! (n mod 10)]"
        by (subst show_nat.simps) simp
      with sm "1.prems" show_nat_nonempty [of "n div 10"] show ?thesis by simp
    qed
  next
    case False
    then have sm: "show_nat m = show_nat (m div 10) @ [''0123456789'' ! (m mod 10)]"
      by (subst show_nat.simps) simp
    show ?thesis
    proof (cases "n < 10")
      case True
      then have "show_nat n = [''0123456789'' ! n]" by (subst show_nat.simps) simp
      with sm "1.prems" show_nat_nonempty [of "m div 10"] show ?thesis by simp
    next
      case nbig: False
      then have "show_nat n = show_nat (n div 10) @ [''0123456789'' ! (n mod 10)]"
        by (subst show_nat.simps) simp
      with sm "1.prems" have q: "show_nat (m div 10) = show_nat (n div 10)"
        and d: "''0123456789'' ! (m mod 10) = ''0123456789'' ! (n mod 10)" by simp_all
      from "1.IH" [OF False q] have "m div 10 = n div 10" .
      moreover from d have "m mod 10 = n mod 10" by (intro digit_inj) simp_all
      ultimately show ?thesis by (metis div_mult_mod_eq)
    qed
  qed
qed

lemma assistantMessageId_inj: "assistantMessageId a = assistantMessageId b \<Longrightarrow> a = b"
  by (simp add: assistantMessageId_def show_nat_inj)

lemma id_on_resolved: "map id_msg (on_resolved aid data msgs) = map id_msg msgs"
  by (simp add: on_resolved_def)

lemma id_on_rejected: "map id_msg (on_rejected aid e msgs) = map id_msg msgs"
  by (simp add: on_rejected_def)

lemma ids_run_send:
  "map id_msg (run_send msgs s) =
     map id_msg msgs @ [userMessageId (send_now1 s), assistantMessageId (send_now2 s)]"
  by (cases "send_outcome s"; cases "send_hasDocs s")
    (simp_all add: run_send_def handleSendMessage_def handleSendMessage_sync_def Let_def
      id_on_resolved id_on_rejected userMessage_def noDocumentsMessage_def loadingMessage_def)

lemma ids_foldl_run_send:
  "set (map id_msg (foldl run_send init sends)) =
     set (map id_msg init) \<union>
     (\<Union>s\<in>set sends. {userMessageId (send_now1 s), assistantMessageId (send_now2 s)})"
proof (induction sends arbitrary: init)
  case Nil
  show ?case by simp
next
  case (Cons s sends)
  show ?case unfolding foldl_Cons Cons.IH ids_run_send by auto
qed

lemma page_messages_fresh:
  assumes "\<forall>s\<in>set sends. send_now2 s \<noteq> now2"
  shows "\<forall>m\<in>set (page_messages sends). id_msg m \<noteq> assistantMessageId now2"
proof
  fix m assume "m \<in> set (page_messages sends)"
  then have "id_msg m \<in> set (map id_msg (foldl run_send [] sends))"
    by (simp add: page_messages_def)
  then obtain s where s: "s \<in> set sends"
    and i: "id_msg m = userMessageId (send_now1 s) \<or> id_msg m = assistantMessageId (send_now2 s)"
    unfolding ids_foldl_run_send by auto
  from s assms have "send_now2 s \<noteq> now2" by blast
  with i show "id_msg m \<noteq> assistantMessageId now2"
    using user_id_not_assistant_id assistantMessageId_inj by metis
qed


lemma resolved_run_fresh:
  assumes fresh: "\<forall>m\<in>set prev. id_msg m \<noteq> assistantMessageId now2"
  shows "on_resolved (assistantMessageId now2) data
           (prev @ [userMessage now1 text, loadingMessage now2]) =
         prev @ [userMessage now1 text,
                 \<lparr>id_msg = assistantMessageId now2, role = assistant, content = answer data,
                  sources_msg = Some (sources data), isLoading = Some False, error = None\<rparr>]"
proof -
  have tail: "on_resolved (assistantMessageId now2) data
                [userMessage now1 text, loadingMessage now2] =
              [userMessage now1 text,
               \<lparr>id_msg = assistantMessageId now2, role = assistant, content = answer data,
                sources_msg = Some (sources data), isLoading = Some False, error = None\<rparr>]"
    using user_id_not_assistant_id [of now1 now2]
    by (simp add: on_resolved_def userMessage_def loadingMessage_def)
  show ?thesis
    using on_resolved_fresh [OF fresh, of data] tail by (simp add: on_resolved_append)
qed

lemma rejected_run_fresh:
  assumes fresh: "\<forall>m\<in>set prev. id_msg m \<noteq> assistantMessageId now2"
  shows "on_rejected (assistantMessageId now2) e
           (prev @ [userMessage now1 text, loadingMessage now2]) =
         prev @ [userMessage now1 text,
                 \<lparr>id_msg = assistantMessageId now2, role = assistant, content = [],
                  sources_msg = None, isLoading = Some False,
                  error = Some (error_text e)\<rparr>]"
proof -
  have tail: "on_rejected (assistantMessageId now2) e
                [userMessage now1 text, loadingMessage now2] =
              [userMessage now1 text,
               \<lparr>id_msg = assistantMessageId now2, role = assistant, content = [],
                sources_msg = None, isLoading = Some False,
                error = Some (error_text e)\<rparr>]"
    using user_id_not_assistant_id [of now1 now2]
    by (simp add: on_rejected_def userMessage_def loadingMessage_def)
  show ?thesis
    using on_rejected_fresh [OF fresh, of e] tail by (simp add: on_rejected_append)
qed

lemma sync_with_documents:
  "handleSendMessage_sync True now1 now2 text prev =
     (prev @ [userMessage now1 text, loadingMessage now2], Some text)"
  by (simp add: handleSendMessage_sync_def)

lemma page_messages_send1:
  "page_messages [send1] =
     [\<lparr>id_msg = ''user-5'', role = user, content = ''q1'', sources_msg = None,
       isLoading = None, error = None\<rparr>,
      \<lparr>id_msg = ''assistant-5'', role = assistant, content = ''a1'',
       sources_msg = Some [source0], isLoading = Some False, error = None\<rparr>]"
  by (simp add: page_messages_def run_send_def send1_def handleSendMessage_def
      handleSendMessage_sync_def on_resolved_def userMessage_def loadingMessage_def
      userMessageId_def assistantMessageId_def show_nat_digit response1_def)

text \<open>
  Claim C5. When \<open>queryDocuments\<close> resolves for a question sent at a reading of the clock
  that no earlier question was sent at, the pending assistant message of that question
  becomes the message whose content is exactly the response's answer and whose sources
  are exactly the response's sources, in their order, with the loading flag cleared;
  the update changes no other message: the messages of the earlier questions and the
  user's message stay as they were.
\<close>

theorem answer_shown_verbatim:
  assumes "\<forall>s\<in>set sends. send_now2 s \<noteq> now2"
  shows
    "handleSendMessage_sync True now1 now2 text (page_messages sends) =
       (page_messages sends @ [userMessage now1 text, loadingMessage now2], Some text) \<and>
     on_resolved (assistantMessageId now2) data
       (page_messages sends @ [userMessage now1 text, loadingMessage now2]) =
       page_messages sends @
       [userMessage now1 text,
        \<lparr>id_msg = assistantMessageId now2, role = assistant, content = answer data,
         sources_msg = Some (sources data), isLoading = Some False, error = None\<rparr>] \<and>
     handleSendMessage True now1 now2 text (Resolved data) (page_messages sends) =
       (page_messages sends @
        [userMessage now1 text,
         \<lparr>id_msg = assistantMessageId now2, role = assistant, content = answer data,
          sources_msg = Some (sources data), isLoading = Some False, error = None\<rparr>],
        [text])"
proof -
  note fresh = page_messages_fresh [OF assms]
  note upd = resolved_run_fresh [OF fresh, of data now1 "text"]
  show ?thesis
    using upd by (simp add: handleSendMessage_def sync_with_documents)
qed

theorem answer_shown_verbatim_witness:
  "send_now2 send1 \<noteq> 8 \<and>
   page_messages [send1] =
     [\<lparr>id_msg = ''user-5'', role = user, content = ''q1'', sources_msg = None,
       isLoading = None, error = None\<rparr>,
      \<lparr>id_msg = ''assistant-5'', role = assistant, content = ''a1'',
       sources_msg = Some [source0], isLoading = Some False, error = None\<rparr>] \<and>
   handleSendMessage True 7 8 ''q2'' (Resolved response2) (page_messages [send1]) =
     ([\<lparr>id_msg = ''user-5'', role = user, content = ''q1'', sources_msg = None,
        isLoading = None, error = None\<rparr>,
       \<lparr>id_msg = ''assistant-5'', role = assistant, content = ''a1'',
        sources_msg = Some [source0], isLoading = Some False, error = None\<rparr>,
       \<lparr>id_msg = ''user-7'', role = user, content = ''q2'', sources_msg = None,
        isLoading = None, error = None\<rparr>,
       \<lparr>id_msg = ''assistant-8'', role = assistant, content = ''a2'',
        sources_msg = Some [], isLoading = Some False, error = None\<rparr>],
      [''q2''])"
proof -
  have h: "\<forall>s\<in>set [send1]. send_now2 s \<noteq> 8" by (simp add: send1_def)
  have c: "send_now2 send1 \<noteq> 8" by (simp add: send1_def)
  show ?thesis
    using answer_shown_verbatim [OF h, of 7 "''q2''" response2] c
    by (simp add: page_messages_send1 response2_def userMessage_def
        userMessageId_def assistantMessageId_def show_nat_digit)
qed

text \<open>
  Claim C6, as amended. When \<open>queryDocuments\<close> rejects for a question sent at a reading
  of the clock that no earlier question was sent at, the pending assistant message of
  that question gets its loading flag cleared and an error text, which is the \<open>error\<close>
  field of the server's response when that is present and not empty, and the fixed
  fallback otherwise; the user's message and all other messages stay as they were; the
  message is rendered as an error, not as an answer.
\<close>

theorem rejection_shown_as_error:
  assumes "\<forall>s\<in>set sends. send_now2 s \<noteq> now2"
  shows
    "handleSendMessage_sync True now1 now2 text (page_messages sends) =
       (page_messages sends @ [userMessage now1 text, loadingMessage now2], Some text) \<and>
     on_rejected (assistantMessageId now2) e
       (page_messages sends @ [userMessage now1 text, loadingMessage now2]) =
       page_messages sends @
       [userMessage now1 text,
        \<lparr>id_msg = assistantMessageId now2, role = assistant, content = [],
         sources_msg = None, isLoading = Some False, error = Some (error_text e)\<rparr>] \<and>
     handleSendMessage True now1 now2 text (Rejected e) (page_messages sends) =
       (page_messages sends @
        [userMessage now1 text,
         \<lparr>id_msg = assistantMessageId now2, role = assistant, content = [],
          sources_msg = None, isLoading = Some False, error = Some (error_text e)\<rparr>],
        [text]) \<and>
     (\<forall>t. server_error e = Some t \<and> t \<noteq> [] \<longrightarrow> error_text e = t) \<and>
     (server_error e = None \<or> server_error e = Some [] \<longrightarrow>
        error_text e = FALLBACK_ERROR_TEXT) \<and>
     ChatMessage \<lparr>id_msg = assistantMessageId now2, role = assistant, content = [],
                  sources_msg = None, isLoading = Some False,
                  error = Some (error_text e)\<rparr> = ErrorText (error_text e)"
proof -
  note fresh = page_messages_fresh [OF assms]
  note upd = rejected_run_fresh [OF fresh, of e now1 "text"]
  have run: "handleSendMessage True now1 now2 text (Rejected e) (page_messages sends) =
       (page_messages sends @
        [userMessage now1 text,
         \<lparr>id_msg = assistantMessageId now2, role = assistant, content = [],
          sources_msg = None, isLoading = Some False, error = Some (error_text e)\<rparr>],
        [text])"
    using upd by (simp add: handleSendMessage_def sync_with_documents)
  have shown: "ChatMessage \<lparr>id_msg = assistantMessageId now2, role = assistant, content = [],
                  sources_msg = None, isLoading = Some False,
                  error = Some (error_text e)\<rparr> = ErrorText (error_text e)"
    using error_text_nonempty [of e] by (simp add: ChatMessage_def)
  from sync_with_documents [of now1 now2 "text" "page_messages sends"] upd run
    error_text_cases [of e] shown
  show ?thesis by blast
qed

theorem rejection_shown_as_error_witness:
  "send_now2 send1 \<noteq> 8 \<and>
   server_error rejection0 = Some ''rate limited'' \<and>
   handleSendMessage True 7 8 ''q2'' (Rejected rejection0) (page_messages [send1]) =
     ([\<lparr>id_msg = ''user-5'', role = user, content = ''q1'', sources_msg = None,
        isLoading = None, error = None\<rparr>,
       \<lparr>id_msg = ''assistant-5'', role = assistant, content = ''a1'',
        sources_msg = Some [source0], isLoading = Some False, error = None\<rparr>,
       \<lparr>id_msg = ''user-7'', role = user, content = ''q2'', sources_msg = None,
        isLoading = None, error = None\<rparr>,
       \<lparr>id_msg = ''assistant-8'', role = assistant, content = [],
        sources_msg = None, isLoading = Some False, error = Some ''rate limited''\<rparr>],
      [''q2'']) \<and>
   ChatMessage \<lparr>id_msg = ''assistant-8'', role = assistant, content = [],
        sources_msg = None, isLoading = Some False, error = Some ''rate limited''\<rparr> =
     ErrorText ''rate limited''"
proof -
  have h: "\<forall>s\<in>set [send1]. send_now2 s \<noteq> 8" by (simp add: send1_def)
  have t: "error_text rejection0 = ''rate limited''"
    by (simp add: rejection0_def error_text_def server_error_def)
  have s: "server_error rejection0 = Some ''rate limited''"
    by (simp add: rejection0_def server_error_def)
  have c: "send_now2 send1 \<noteq> 8" by (simp add: send1_def)
  show ?thesis
    using rejection_shown_as_error [OF h, of 7 "''q2''" rejection0] c
    by (simp add: page_messages_send1 t s userMessage_def
        userMessageId_def assistantMessageId_def show_nat_digit)
qed

text \<open>
  The claim as first stated, that the error text is the server's \<open>error\<close> field whenever
  it is present, fails for a field that is present but empty: the message then carries
  the fallback.
\<close>

theorem empty_error_field_gives_fallback:
  "server_error rejection_empty = Some [] \<and>
   handleSendMessage True 7 8 ''q1'' (Rejected rejection_empty) [] =
     ([\<lparr>id_msg = ''user-7'', role = user, content = ''q1'', sources_msg = None,
        isLoading = None, error = None\<rparr>,
       \<lparr>id_msg = ''assistant-8'', role = assistant, content = [],
        sources_msg = None, isLoading = Some False,
        error = Some ''Failed to get an answer. Please try again.''\<rparr>],
      [''q1''])"
  by (simp add: rejection_empty_def server_error_def error_text_def FALLBACK_ERROR_TEXT_def
      handleSendMessage_def handleSendMessage_sync_def on_rejected_def userMessage_def
      loadingMessage_def userMessageId_def assistantMessageId_def show_nat_digit)

section \<open>Properties of the question input\<close>

lemma trim_empty_iff: "trim s = [] \<longleftrightarrow> (\<forall>c\<in>set s. is_whitespace c)"
proof
  assume "trim s = []"
  then have "\<forall>c\<in>set (dropWhile is_whitespace s). is_whitespace c"
    by (simp add: trim_def)
  then have "dropWhile is_whitespace s = []"
    using hd_dropWhile [of is_whitespace s] by (cases "dropWhile is_whitespace s") auto
  then show "\<forall>c\<in>set s. is_whitespace c" by simp
next
  assume "\<forall>c\<in>set s. is_whitespace c"
  then have "dropWhile is_whitespace s = []" by simp
  then show "trim s = []" unfolding trim_def by (simp del: dropWhile_eq_Nil_conv)
qed

text \<open>
  Claim C10. For every value of the field, \<open>handleSend\<close> calls \<open>onSend\<close> exactly when
  the trimmed value is not empty and the input is neither disabled nor loading; it then
  passes the trimmed value and resets the field to the empty string, and otherwise
  leaves the field as it is. A value of white space only is never sent. The Enter key
  without Shift does what \<open>handleSend\<close> does; any other key sends nothing.
\<close>

theorem ChatInput_sends_trimmed:
  "(fst (handleSend disabled loading val) \<noteq> [] \<longleftrightarrow>
      trim val \<noteq> [] \<and> disabled \<noteq> Some True \<and> loading \<noteq> Some True) \<and>
   (fst (handleSend disabled loading val) \<noteq> [] \<longrightarrow>
      handleSend disabled loading val = ([trim val], [])) \<and>
   (fst (handleSend disabled loading val) = [] \<longrightarrow>
      snd (handleSend disabled loading val) = val) \<and>
   ((\<forall>c\<in>set val. is_whitespace c) \<longrightarrow> fst (handleSend disabled loading val) = []) \<and>
   handleKeyDown disabled loading \<lparr>key = ''Enter'', shiftKey = False\<rparr> val =
     handleSend disabled loading val \<and>
   (key e \<noteq> ''Enter'' \<or> shiftKey e \<longrightarrow> handleKeyDown disabled loading e val = ([], val))"
  using trim_empty_iff [of val]
  by (auto simp: handleSend_def handleKeyDown_def)

theorem ChatInput_sends_trimmed_witness:
  "trim ''  what is rag  '' = ''what is rag'' \<and>
   handleSend None (Some False) ''  what is rag  '' = ([''what is rag''], []) \<and>
   list_all is_whitespace ''   '' \<and>
   handleSend None None ''   '' = ([], ''   '') \<and>
   handleSend None (Some True) ''what is rag'' = ([], ''what is rag'') \<and>
   handleKeyDown None None \<lparr>key = ''Enter'', shiftKey = True\<rparr> ''hello'' = ([], ''hello'')"
proof -
  have t: "trim ''  what is rag  '' = ''what is rag''"
    by (simp add: trim_def is_whitespace_def)
  have w: "\<forall>c\<in>set ''   ''. is_whitespace c" by (simp add: is_whitespace_def)
  show ?thesis
    using ChatInput_sends_trimmed [of None "Some False" "''  what is rag  ''"]
      ChatInput_sends_trimmed [of None None "''   ''"]
      ChatInput_sends_trimmed [of None "Some True" "''what is rag''"]
      ChatInput_sends_trimmed [of None None "''hello''" "\<lparr>key = ''Enter'', shiftKey = True\<rparr>"]
      t w
    by (auto simp: prod_eq_iff list_all_iff)
qed

section \<open>Properties of the pipeline behind the boundary\<close>

lemma ingest_invalid:
  "ctype \<notin> set SUPPORTED_CONTENT_TYPES \<or> bytes = [] \<Longrightarrow>
     ingest new_id now bytes name ctype session store = (Inl ValidationError, store)"
  by (simp add: ingest_def)

lemma ingest_valid:
  "ctype \<in> set SUPPORTED_CONTENT_TYPES \<Longrightarrow> bytes \<noteq> [] \<Longrightarrow>
     \<exists>d. ingest new_id now bytes name ctype session store =
           (Inr d, store @ [\<lparr>row_session_id = session, row_document = d\<rparr>]) \<and>
         status d = pending \<and> chunk_count d = 0 \<and> error_message d = None"
  by (simp add: ingest_def Let_def)

lemma ingest_Inr:
  "fst (ingest new_id now bytes name ctype session store) = Inr d \<Longrightarrow>
     status d = pending \<and> chunk_count d = 0 \<and> error_message d = None"
  by (auto simp: ingest_def Let_def split: if_splits)

lemma ingest_doc_new:
  "ingest ''d-7'' ''2025-01-02T00:00:00Z'' [1, 2, 3] ''notes.txt'' ''txt'' ''s1'' [] =
     (Inr doc_new, [\<lparr>row_session_id = ''s1'', row_document = doc_new\<rparr>])"
  by (simp add: ingest_def SUPPORTED_CONTENT_TYPES_def doc_new_def Let_def numeral_3_eq_3)

lemma lifecycle_doc_new:
  "lifecycle doc_new [Start, Complete (Inr [''a'', ''b'', ''c''])] =
     \<lparr>the_document = doc_new\<lparr>status := indexed, chunk_count := 3\<rparr>,
      index_entries = [(0, ''a''), (1, ''b''), (2, ''c'')]\<rparr>"
  by (simp add: lifecycle_def doc_new_def upt_rec)

lemma accept_attr_eval:
  "acceptPropAsAcceptAttr UploadZone_accept =
     [''text/plain'', ''.txt'', ''text/markdown'', ''.md'', ''application/pdf'', ''.pdf'']"
  by (simp add: acceptPropAsAcceptAttr_def UploadZone_accept_def)

lemma entries_normal:
  "toLowerCase (trim ''text/plain'') = ''text/plain''"
  "toLowerCase (trim ''.txt'') = ''.txt''"
  "toLowerCase (trim ''text/markdown'') = ''text/markdown''"
  "toLowerCase (trim ''.md'') = ''.md''"
  "toLowerCase (trim ''application/pdf'') = ''application/pdf''"
  "toLowerCase (trim ''.pdf'') = ''.pdf''"
  by (simp_all add: toLowerCase_def trim_def is_whitespace_def)

lemma no_wildcard:
  "\<not> suffix ''/*'' ''text/plain''" "\<not> suffix ''/*'' ''text/markdown''"
  "\<not> suffix ''/*'' ''application/pdf''"
  by (simp_all add: suffix_to_prefix)

lemma widget_accepts_iff:
  "fileAccepted f (acceptPropAsAcceptAttr UploadZone_accept) \<longleftrightarrow>
     toLowerCase (file_type f) = ''text/plain'' \<or>
     toLowerCase (file_type f) = ''text/markdown'' \<or>
     toLowerCase (file_type f) = ''application/pdf'' \<or>
     file_type f = ''application/x-moz-file'' \<or>
     suffix ''.txt'' (toLowerCase (file_name f)) \<or>
     suffix ''.md'' (toLowerCase (file_name f)) \<or>
     suffix ''.pdf'' (toLowerCase (file_name f))"
  unfolding fileAccepted_def accepts_def accept_attr_eval
  by (simp add: entries_normal no_wildcard Let_def) blast

lemma draft_md_accepted: "fileAccepted draft_md (acceptPropAsAcceptAttr UploadZone_accept)"
  unfolding widget_accepts_iff
  by (simp add: draft_md_def toLowerCase_def suffix_to_prefix)

lemma notes_txt_accepted: "fileAccepted notes_txt (acceptPropAsAcceptAttr UploadZone_accept)"
  unfolding widget_accepts_iff
  by (simp add: notes_txt_def toLowerCase_def)

lemma setup_exe_refused: "\<not> fileAccepted setup_exe (acceptPropAsAcceptAttr UploadZone_accept)"
  unfolding widget_accepts_iff
  by (simp add: setup_exe_def toLowerCase_def suffix_to_prefix)


text \<open>
  Claim C4, as amended. \<open>ingest\<close> answers an upload whose content type is not one of
  pdf, txt and markdown, and an upload of zero bytes, with \<open>ValidationError\<close>, and the
  Document Store is then what it was; an upload that passes both checks creates one
  row, in \<open>pending\<close>. The upload widget hands to \<open>onUpload\<close>, in one call, exactly the
  dropped files whose MIME type is text/plain, text/markdown or application/pdf (or the
  placeholder application/x-moz-file) or whose name ends in .txt, .md or .pdf, letter
  case apart; it does not look at the size of a file, and takes none while uploading.
\<close>

theorem invalid_uploads_rejected:
  "(ctype \<notin> {''pdf'', ''txt'', ''markdown''} \<or> bytes = [] \<longrightarrow>
      ingest new_id now bytes name ctype session store = (Inl ValidationError, store)) \<and>
   (ctype \<in> {''pdf'', ''txt'', ''markdown''} \<and> bytes \<noteq> [] \<longrightarrow>
      (\<exists>d. ingest new_id now bytes name ctype session store =
            (Inr d, store @ [\<lparr>row_session_id = session, row_document = d\<rparr>]) \<and>
          status d = pending)) \<and>
   (fileAccepted f (acceptPropAsAcceptAttr UploadZone_accept) \<longleftrightarrow>
      toLowerCase (file_type f) = ''text/plain'' \<or>
      toLowerCase (file_type f) = ''text/markdown'' \<or>
      toLowerCase (file_type f) = ''application/pdf'' \<or>
      file_type f = ''application/x-moz-file'' \<or>
      suffix ''.txt'' (toLowerCase (file_name f)) \<or>
      suffix ''.md'' (toLowerCase (file_name f)) \<or>
      suffix ''.pdf'' (toLowerCase (file_name f))) \<and>
   concat (UploadZone_drop isUploading files) =
     (if isUploading = Some True then []
      else filter (\<lambda>f. fileAccepted f (acceptPropAsAcceptAttr UploadZone_accept)) files) \<and>
   length (UploadZone_drop isUploading files) \<le> 1"
proof -
  have s: "set SUPPORTED_CONTENT_TYPES = {''pdf'', ''txt'', ''markdown''}"
    by (simp add: SUPPORTED_CONTENT_TYPES_def)
  have i: "ctype \<notin> {''pdf'', ''txt'', ''markdown''} \<or> bytes = [] \<longrightarrow>
      ingest new_id now bytes name ctype session store = (Inl ValidationError, store)"
    using ingest_invalid [of ctype bytes new_id now name session store] unfolding s by blast
  have v: "ctype \<in> {''pdf'', ''txt'', ''markdown''} \<and> bytes \<noteq> [] \<longrightarrow>
      (\<exists>d. ingest new_id now bytes name ctype session store =
            (Inr d, store @ [\<lparr>row_session_id = session, row_document = d\<rparr>]) \<and>
          status d = pending)"
    using ingest_valid [of ctype bytes new_id now name session store] unfolding s by blast
  have d: "concat (UploadZone_drop isUploading files) =
     (if isUploading = Some True then []
      else filter (\<lambda>f. fileAccepted f (acceptPropAsAcceptAttr UploadZone_accept)) files)"
    by (simp add: UploadZone_drop_def onDrop_def)
  have l: "length (UploadZone_drop isUploading files) \<le> 1"
    by (simp add: UploadZone_drop_def onDrop_def)
  show ?thesis by (intro conjI i v widget_accepts_iff d l)
qed

theorem invalid_uploads_rejected_witness:
  "''exe'' \<notin> {''pdf'', ''txt'', ''markdown''} \<and>
   ingest ''d-7'' ''2025-01-02T00:00:00Z'' [1, 2, 3] ''setup.exe'' ''exe'' ''s1'' [] =
     (Inl ValidationError, []) \<and>
   ingest ''d-7'' ''2025-01-02T00:00:00Z'' [] ''notes.txt'' ''txt'' ''s1'' [] =
     (Inl ValidationError, []) \<and>
   ''txt'' \<in> {''pdf'', ''txt'', ''markdown''} \<and>
   ingest ''d-7'' ''2025-01-02T00:00:00Z'' [1, 2, 3] ''notes.txt'' ''txt'' ''s1'' [] =
     (Inr doc_new, [\<lparr>row_session_id = ''s1'', row_document = doc_new\<rparr>]) \<and>
   fileAccepted notes_txt (acceptPropAsAcceptAttr UploadZone_accept) \<and>
   \<not> fileAccepted setup_exe (acceptPropAsAcceptAttr UploadZone_accept) \<and>
   concat (UploadZone_drop None [notes_txt, setup_exe]) = [notes_txt] \<and>
   concat (UploadZone_drop (Some True) [notes_txt, setup_exe]) = []"
proof -
  have e: "''exe'' \<notin> {''pdf'', ''txt'', ''markdown''}" by simp
  have t: "''txt'' \<in> {''pdf'', ''txt'', ''markdown''}" by simp
  have r1: "ingest ''d-7'' ''2025-01-02T00:00:00Z'' [1, 2, 3] ''setup.exe'' ''exe'' ''s1'' [] =
     (Inl ValidationError, [])"
    using invalid_uploads_rejected [THEN conjunct1, rule_format, OF disjI1, OF e] .
  have r2: "ingest ''d-7'' ''2025-01-02T00:00:00Z'' [] ''notes.txt'' ''txt'' ''s1'' [] =
     (Inl ValidationError, [])"
    using invalid_uploads_rejected [THEN conjunct1, rule_format, OF disjI2, OF refl] .
  have d1: "concat (UploadZone_drop None [notes_txt, setup_exe]) = [notes_txt]"
    using invalid_uploads_rejected [THEN conjunct2, THEN conjunct2, THEN conjunct2,
        THEN conjunct1, of None "[notes_txt, setup_exe]"]
    by (simp add: notes_txt_accepted setup_exe_refused)
  have d2: "concat (UploadZone_drop (Some True) [notes_txt, setup_exe]) = []"
    using invalid_uploads_rejected [THEN conjunct2, THEN conjunct2, THEN conjunct2,
        THEN conjunct1, of "Some True" "[notes_txt, setup_exe]"]
    by simp
  show ?thesis
    by (intro conjI e t r1 r2 d1 d2 ingest_doc_new notes_txt_accepted setup_exe_refused)
qed

text \<open>
  The claim as first stated, that the widget accepts only files of the three MIME
  types, fails for a file named \<open>draft.md\<close> with no type and no bytes: the widget hands
  it on.
\<close>

theorem widget_accepts_untyped_empty_file:
  "UploadZone_drop None [draft_md, setup_exe] = [[draft_md]] \<and>
   file_type draft_md = [] \<and> file_bytes draft_md = [] \<and>
   file_type draft_md \<notin> {''text/plain'', ''text/markdown'', ''application/pdf''}"
  by (simp add: UploadZone_drop_def onDrop_def draft_md_accepted setup_exe_refused)
    (simp add: draft_md_def)


lemma document_invariant_initial:
  "status d = pending \<Longrightarrow> chunk_count d = 0 \<Longrightarrow> error_message d = None \<Longrightarrow>
     document_invariant \<lparr>the_document = d, index_entries = []\<rparr>"
  by (simp add: document_invariant_def)

lemma document_invariant_step:
  "document_invariant s \<Longrightarrow> document_invariant (pipeline_step e s)"
proof (cases e)
  case Start
  then show "document_invariant s \<Longrightarrow> ?thesis" by (auto simp: document_invariant_def)
next
  case (Complete r)
  then show "document_invariant s \<Longrightarrow> ?thesis"
    by (cases r) (auto simp: document_invariant_def mark_failed_def)
next
  case Reupload
  then show "document_invariant s \<Longrightarrow> ?thesis" by (auto simp: document_invariant_def)
qed

lemma document_invariant_foldl:
  "document_invariant s \<Longrightarrow> document_invariant (foldl (\<lambda>s e. pipeline_step e s) s events)"
  by (induction events arbitrary: s) (simp_all add: document_invariant_step)

lemma contiguous_indices:
  "document_invariant s \<Longrightarrow> status (the_document s) = indexed \<Longrightarrow>
     distinct (map fst (index_entries s)) \<and>
     set (map fst (index_entries s)) = {0..<chunk_count (the_document s)} \<and>
     length (index_entries s) = chunk_count (the_document s)"
proof -
  assume "document_invariant s" "status (the_document s) = indexed"
  then have m: "map fst (index_entries s) = [0..<chunk_count (the_document s)]"
    by (simp add: document_invariant_def)
  have "length (map fst (index_entries s)) = length [0..<chunk_count (the_document s)]"
    by (simp only: m)
  then have "length (index_entries s) = chunk_count (the_document s)" by simp
  then show ?thesis by (simp add: m)
qed

text \<open>
  Claim C2. For a Document created by \<open>ingest\<close> and taken through any sequence of pipeline
  events, \<open>chunk_count > 0\<close> holds exactly when the status is \<open>indexed\<close>, the
  \<open>error_message\<close> is set exactly when the status is \<open>failed\<close>, and the chunk indices of
  an indexed document are \<open>0, ..., chunk_count - 1\<close> in order, hence without gap or
  duplicate.
\<close>

theorem lifecycle_keeps_document_invariant:
  "fst (ingest new_id now bytes name ctype session store) = Inr d \<Longrightarrow>
     document_invariant (lifecycle d events) \<and>
     (status (the_document (lifecycle d events)) = indexed \<longrightarrow>
        map fst (index_entries (lifecycle d events)) =
          [0..<chunk_count (the_document (lifecycle d events))] \<and>
        distinct (map fst (index_entries (lifecycle d events))) \<and>
        set (map fst (index_entries (lifecycle d events))) =
          {0..<chunk_count (the_document (lifecycle d events))})"
proof -
  assume "fst (ingest new_id now bytes name ctype session store) = Inr d"
  then have "document_invariant \<lparr>the_document = d, index_entries = []\<rparr>"
    using ingest_Inr document_invariant_initial by blast
  then have inv: "document_invariant (lifecycle d events)"
    unfolding lifecycle_def by (rule document_invariant_foldl)
  then show ?thesis
    using contiguous_indices [of "lifecycle d events"]
    by (simp add: document_invariant_def)
qed

theorem lifecycle_keeps_document_invariant_witness:
  "fst (ingest ''d-7'' ''2025-01-02T00:00:00Z'' [1, 2, 3] ''notes.txt'' ''txt'' ''s1'' []) =
     Inr doc_new \<and>
   lifecycle doc_new [Start, Complete (Inr [''a'', ''b'', ''c''])] =
     \<lparr>the_document = doc_new\<lparr>status := indexed, chunk_count := 3\<rparr>,
      index_entries = [(0, ''a''), (1, ''b''), (2, ''c'')]\<rparr> \<and>
   document_invariant (lifecycle doc_new [Start, Complete (Inr [''a'', ''b'', ''c''])]) \<and>
   status (the_document (lifecycle doc_new [Start, Complete (Inr [''a'', ''b'', ''c''])])) =
     indexed \<and>
   map fst (index_entries (lifecycle doc_new [Start, Complete (Inr [''a'', ''b'', ''c''])])) =
     [0, 1, 2]"
  using lifecycle_keeps_document_invariant
    [of "''d-7''" "''2025-01-02T00:00:00Z''" "[1, 2, 3]" "''notes.txt''" "''txt''" "''s1''" "[]"
       doc_new "[Start, Complete (Inr [''a'', ''b'', ''c''])]"]
  by (simp add: ingest_doc_new lifecycle_doc_new)

lemma rank_key_le: "rank_key a \<le> rank_key b \<longleftrightarrow> ranks_before a b"
  by (auto simp: rank_key_def ranks_before_def less_eq_prod_def)

lemma sorted_ranked_hits: "sorted_wrt ranks_before (ranked_hits index query session k thr)"
proof -
  let ?kept = "filter (\<lambda>h. \<not> score (hit_result h) < thr)
                 (index query session @ index query SAMPLE_PARTITION)"
  have "sorted (map rank_key (sort_key rank_key ?kept))" by (rule sorted_sort_key)
  then have "sorted_wrt ranks_before (sort_key rank_key ?kept)"
    by (simp add: sorted_wrt_map rank_key_le)
  then show ?thesis unfolding ranked_hits_def by (rule sorted_wrt_take)
qed

lemma ranked_hits_above_threshold:
  "h \<in> set (ranked_hits index query session k thr) \<Longrightarrow> thr \<le> score (hit_result h)"
  by (auto simp: ranked_hits_def dest!: in_set_takeD)

lemma ranks_before_score: "ranks_before a b \<Longrightarrow> score (hit_result b) \<le> score (hit_result a)"
  by (auto simp: ranks_before_def)

lemma ranked_hits_index0:
  "ranked_hits index0 ''rag'' ''s1'' 2 (1 / 2) = [hitB, hitC]"
  by (simp add: ranked_hits_def index0_def SAMPLE_PARTITION_def rank_key_def less_eq_prod_def
      hitA_def hitB_def hitC_def hitD_def)

lemma search_index0:
  "search index0 ''rag'' ''s1'' 2 (1 / 2) = Inr [hit_result hitB, hit_result hitC]"
  by (simp add: search_def validate_search_def ranked_hits_index0)

text \<open>
  Claim C3. Whatever the index, the query, the session, \<open>top_k\<close> and the threshold, a
  sequence returned by \<open>search\<close> has no result with a score below the threshold, is
  sorted by score descending with ties broken by creation time descending and then chunk
  index ascending, and has at most \<open>top_k\<close> results.
\<close>

theorem search_results_ranked:
  "(search index query session top_k thr = Inr results \<longrightarrow>
      (\<forall>r\<in>set results. thr \<le> score r) \<and>
      results = map hit_result (ranked_hits index query session (nat top_k) thr) \<and>
      sorted_wrt ranks_before (ranked_hits index query session (nat top_k) thr) \<and>
      sorted_wrt (\<lambda>a b. score b \<le> score a) results \<and>
      int (length results) \<le> top_k) \<and>
   (0 < top_k \<and> 0 \<le> thr \<and> thr \<le> 1 \<longrightarrow>
      (\<exists>rs. search index query session top_k thr = Inr rs))"
proof -
  have returns: "\<exists>rs. search index query session top_k thr = Inr rs"
    if "0 < top_k \<and> 0 \<le> thr \<and> thr \<le> 1"
    using that by (simp add: search_def validate_search_def)
  have ranked: "(\<forall>r\<in>set results. thr \<le> score r) \<and>
      results = map hit_result (ranked_hits index query session (nat top_k) thr) \<and>
      sorted_wrt ranks_before (ranked_hits index query session (nat top_k) thr) \<and>
      sorted_wrt (\<lambda>a b. score b \<le> score a) results \<and>
      int (length results) \<le> top_k"
    if a: "search index query session top_k thr = Inr results"
  proof -
    from a have v: "validate_search (of_int top_k) thr = Inr ()"
      by (cases "validate_search (of_int top_k) thr") (auto simp: search_def)
    then have pos: "0 < top_k" by (auto simp: validate_search_def split: if_splits)
    from a v have r: "results = map hit_result (ranked_hits index query session (nat top_k) thr)"
      by (simp add: search_def)
    have s: "sorted_wrt ranks_before (ranked_hits index query session (nat top_k) thr)"
      by (rule sorted_ranked_hits)
    then have "sorted_wrt (\<lambda>a b. score (hit_result b) \<le> score (hit_result a))
                 (ranked_hits index query session (nat top_k) thr)"
      by (rule sorted_wrt_mono_rel [rotated]) (simp add: ranks_before_score)
    then have s2: "sorted_wrt (\<lambda>a b. score b \<le> score a) results"
      unfolding r by (simp add: sorted_wrt_map)
    have "length results \<le> nat top_k" unfolding r by (simp add: ranked_hits_def)
    with pos have l: "int (length results) \<le> top_k" by linarith
    have t: "\<forall>r\<in>set results. thr \<le> score r"
      unfolding r using ranked_hits_above_threshold by fastforce
    from t r s s2 l show ?thesis by blast
  qed
  from returns ranked show ?thesis by blast
qed

theorem search_results_ranked_witness:
  "search index0 ''rag'' ''s1'' 2 (1 / 2) = Inr [hit_result hitB, hit_result hitC] \<and>
   score (hit_result hitB) = 0.9 \<and> score (hit_result hitC) = 0.6 \<and>
   list_all (\<lambda>r. 1 / 2 \<le> score r) [hit_result hitB, hit_result hitC] \<and>
   ranks_before hitB hitC \<and> ranks_before hitC hitA \<and>
   int (length [hit_result hitB, hit_result hitC]) \<le> 2 \<and>
   (0::int) < 2 \<and> (0::real) \<le> 1 / 2 \<and> (1 / 2 :: real) \<le> 1"
  using search_results_ranked
    [of index0 "''rag''" "''s1''" 2 "1 / 2" "[hit_result hitB, hit_result hitC]"]
  by (simp add: search_index0 ranked_hits_index0 ranks_before_def hitA_def hitB_def hitC_def)

end
